theory Spec2Isabelle
  imports Main "HOL-Library.AList"
begin

section \<open>Values, texts and exceptions\<close>

text \<open>
  The queue client of \<^verbatim>\<open>src/services/message_queue.py\<close> moves JSON documents
  through Redis. A decoded document is a \<open>json\<close> value. Python's \<^verbatim>\<open>None\<close> is
  \<open>JNull\<close>; a \<^verbatim>\<open>dict\<close> is an association list in insertion order, updated in
  place by \<open>AList.update\<close> (an existing key keeps its position, a new key goes last), as
  a Python dict does. A float is the pair of its mantissa and binary exponent; only
  whether it is zero is ever inspected.
\<close>

datatype json =
    JNull
  | JBool bool
  | JInt int
  | JFloat int int
  | JStr string
  | JArr "json list"
  | JObj "(string \<times> json) list"

text \<open>
  A text stored in Redis either is the serialisation of a JSON value (\<open>Encoded\<close>) or is
  not valid JSON (\<open>Malformed raw diag\<close>: the characters \<open>raw\<close>, for which
  \<^verbatim>\<open>json.loads\<close> raises with the message \<open>diag\<close>). The empty text is malformed.
\<close>

datatype payload =
    Encoded json
  | Malformed string string

datatype exn =
    RuntimeError string
  | JSONDecodeError string
  | TypeError string
  | AttributeError string
  | RedisError string
  | Exception string

datatype level = INFO | ERROR

text \<open>\<^verbatim>\<open>str(e)\<close>, as the f-strings of the log lines and \<^verbatim>\<open>error_message=str(e)\<close> use it.\<close>

fun str_exn :: "exn \<Rightarrow> string" where
  "str_exn (RuntimeError m) = m"
| "str_exn (JSONDecodeError m) = m"
| "str_exn (TypeError m) = m"
| "str_exn (AttributeError m) = m"
| "str_exn (RedisError m) = m"
| "str_exn (Exception m) = m"

text \<open>Truth value testing of \<^verbatim>\<open>if x:\<close>.\<close>

fun py_truthy :: "json \<Rightarrow> bool" where
  "py_truthy JNull = False"
| "py_truthy (JBool b) = b"
| "py_truthy (JInt i) = (i \<noteq> 0)"
| "py_truthy (JFloat m e) = (m \<noteq> 0)"
| "py_truthy (JStr s) = (s \<noteq> [])"
| "py_truthy (JArr xs) = (xs \<noteq> [])"
| "py_truthy (JObj kvs) = (kvs \<noteq> [])"

fun type_name :: "json \<Rightarrow> string" where
  "type_name JNull = ''NoneType''"
| "type_name (JBool b) = ''bool''"
| "type_name (JInt i) = ''int''"
| "type_name (JFloat m e) = ''float''"
| "type_name (JStr s) = ''str''"
| "type_name (JArr xs) = ''list''"
| "type_name (JObj kvs) = ''dict''"

definition quoted :: "string \<Rightarrow> string" where
  "quoted s = [CHR 0x27] @ s @ [CHR 0x27]"

text \<open>
  \<^verbatim>\<open>str(x)\<close> inside an f-string. A string formats as itself; the rendering of any
  other value is the parameter \<open>fmt\<close> (Python's \<^verbatim>\<open>repr\<close>), which every function
  that formats a job id takes.
\<close>

definition py_str :: "(json \<Rightarrow> string) \<Rightarrow> json \<Rightarrow> string" where
  "py_str fmt v = (case v of JStr s \<Rightarrow> s | _ \<Rightarrow> fmt v)"

text \<open>\<^verbatim>\<open>message.get(key)\<close>: only a dict has the method; a missing key gives \<^verbatim>\<open>None\<close>.\<close>

definition dict_get :: "json \<Rightarrow> string \<Rightarrow> exn + json" where
  "dict_get d key =
     (case d of
        JObj kvs \<Rightarrow> Inr (case map_of kvs key of None \<Rightarrow> JNull | Some v \<Rightarrow> v)
      | _ \<Rightarrow> Inl (AttributeError
                  (quoted (type_name d) @ '' object has no attribute '' @ quoted ''get'')))"

text \<open>\<^verbatim>\<open>d[key] = v\<close> with a string key: a dict is updated, anything else raises.\<close>

definition set_item :: "json \<Rightarrow> string \<Rightarrow> json \<Rightarrow> exn + json" where
  "set_item d key v =
     (case d of
        JObj kvs \<Rightarrow> Inr (JObj (AList.update key v kvs))
      | JArr xs \<Rightarrow> Inl (TypeError ''list indices must be integers or slices, not str'')
      | _ \<Rightarrow> Inl (TypeError
                  (quoted (type_name d) @ '' object does not support item assignment'')))"

definition json_dumps :: "json \<Rightarrow> payload" where
  "json_dumps v = Encoded v"

fun json_loads :: "payload \<Rightarrow> exn + json" where
  "json_loads (Encoded v) = Inr v"
| "json_loads (Malformed raw diag) = Inl (JSONDecodeError diag)"

text \<open>Truth value of a text read from Redis: every text but the empty one.\<close>

fun text_truthy :: "payload \<Rightarrow> bool" where
  "text_truthy (Encoded v) = True"
| "text_truthy (Malformed raw diag) = (raw \<noteq> [])"

section \<open>The world: service objects, Redis, clock and log\<close>

text \<open>
  \<open>redis_client\<close> tells whether \<^verbatim>\<open>MessageQueueService.redis_client\<close> is set and
  \<open>running\<close> is \<^verbatim>\<open>JobProcessor.running\<close>. Redis holds lists (\<open>lists_db\<close>, head
  first), strings with the expiration they were written with in seconds (\<open>strings_db\<close>),
  and the messages published so far, oldest first (\<open>published\<close>). Each Redis command
  takes the next entry of \<open>faults\<close>: \<open>Some e\<close> makes the command raise \<open>e\<close>, \<open>None\<close>
  or an exhausted schedule lets it through. \<open>clock\<close> is the stream of the values that
  successive \<^verbatim>\<open>datetime.utcnow().isoformat()\<close> calls return. \<open>logger\<close> is the
  loguru output, oldest first, and \<open>slept\<close> the seconds spent in \<^verbatim>\<open>asyncio.sleep\<close>.
  Stored entries do not expire in the model: no time passes between commands.
\<close>

record world =
  redis_client :: bool
  running :: bool
  lists_db :: "string \<Rightarrow> payload list"
  strings_db :: "string \<rightharpoonup> payload \<times> nat"
  published :: "(string \<times> payload) list"
  faults :: "exn option list"
  clock :: "nat \<Rightarrow> string"
  logger :: "(level \<times> string) list"
  slept :: nat

definition logger_info :: "string \<Rightarrow> world \<Rightarrow> world" where
  "logger_info m w = w\<lparr>logger := logger w @ [(INFO, m)]\<rparr>"

definition logger_error :: "string \<Rightarrow> world \<Rightarrow> world" where
  "logger_error m w = w\<lparr>logger := logger w @ [(ERROR, m)]\<rparr>"

definition asyncio_sleep :: "nat \<Rightarrow> world \<Rightarrow> world" where
  "asyncio_sleep secs w = w\<lparr>slept := slept w + secs\<rparr>"

definition utcnow_isoformat :: "world \<Rightarrow> string \<times> world" where
  "utcnow_isoformat w = (clock w 0, w\<lparr>clock := (\<lambda>n. clock w (Suc n))\<rparr>)"

definition redis_fault :: "world \<Rightarrow> exn option \<times> world" where
  "redis_fault w =
     (case faults w of [] \<Rightarrow> (None, w) | f # fs \<Rightarrow> (f, w\<lparr>faults := fs\<rparr>))"

text \<open>\<^verbatim>\<open>LPUSH\<close> inserts at the head of the list.\<close>

definition redis_lpush :: "string \<Rightarrow> payload \<Rightarrow> world \<Rightarrow> (exn + unit) \<times> world" where
  "redis_lpush key v w =
     (case redis_fault w of
        (Some e, w') \<Rightarrow> (Inl e, w')
      | (None, w') \<Rightarrow> (Inr (), w'\<lparr>lists_db := (lists_db w')(key := v # lists_db w' key)\<rparr>))"

text \<open>
  \<^verbatim>\<open>BRPOP\<close> removes the last element of the list and returns it with the key; on an
  empty list it returns nothing once the timeout has passed.
\<close>

definition redis_brpop ::
  "string \<Rightarrow> nat \<Rightarrow> world \<Rightarrow> (exn + (string \<times> payload) option) \<times> world" where
  "redis_brpop key timeout w =
     (case redis_fault w of
        (Some e, w') \<Rightarrow> (Inl e, w')
      | (None, w') \<Rightarrow>
          (case lists_db w' key of
             [] \<Rightarrow> (Inr None, w')
           | x # xs \<Rightarrow>
               (Inr (Some (key, last (x # xs))),
                w'\<lparr>lists_db := (lists_db w')(key := butlast (x # xs))\<rparr>)))"

definition redis_publish :: "string \<Rightarrow> payload \<Rightarrow> world \<Rightarrow> (exn + unit) \<times> world" where
  "redis_publish channel v w =
     (case redis_fault w of
        (Some e, w') \<Rightarrow> (Inl e, w')
      | (None, w') \<Rightarrow> (Inr (), w'\<lparr>published := published w' @ [(channel, v)]\<rparr>))"

definition redis_get :: "string \<Rightarrow> world \<Rightarrow> (exn + payload option) \<times> world" where
  "redis_get key w =
     (case redis_fault w of
        (Some e, w') \<Rightarrow> (Inl e, w')
      | (None, w') \<Rightarrow> (Inr (map_option fst (strings_db w' key)), w'))"

definition redis_setex :: "string \<Rightarrow> nat \<Rightarrow> payload \<Rightarrow> world \<Rightarrow> (exn + unit) \<times> world" where
  "redis_setex key ttl v w =
     (case redis_fault w of
        (Some e, w') \<Rightarrow> (Inl e, w')
      | (None, w') \<Rightarrow> (Inr (), w'\<lparr>strings_db := (strings_db w')(key \<mapsto> (v, ttl))\<rparr>))"

section \<open>MessageQueueService\<close>

definition not_connected :: exn where
  "not_connected = RuntimeError ''Redis client not connected''"

subsection \<open>publish_message\<close>

definition publish_message_try :: "string \<Rightarrow> json \<Rightarrow> world \<Rightarrow> (exn + unit) \<times> world" where
  "publish_message_try queue_name message w =
     (let message_json = json_dumps message in
      case redis_lpush queue_name message_json w of
        (Inl e, w1) \<Rightarrow> (Inl e, w1)
      | (Inr u, w1) \<Rightarrow>
          (case redis_publish (queue_name @ '':notification'') message_json w1 of
             (Inl e, w2) \<Rightarrow> (Inl e, w2)
           | (Inr u', w2) \<Rightarrow>
               (Inr (), logger_info (''Message published to queue '' @ queue_name) w2)))"

definition publish_message :: "string \<Rightarrow> json \<Rightarrow> world \<Rightarrow> (exn + unit) \<times> world" where
  "publish_message queue_name message w =
     (if \<not> redis_client w then (Inl not_connected, w)
      else case publish_message_try queue_name message w of
             (Inl e, w') \<Rightarrow>
               (Inl e, logger_error (''Error publishing message to queue '' @ queue_name
                                      @ '': '' @ str_exn e) w')
           | (Inr u, w') \<Rightarrow> (Inr u, w'))"

subsection \<open>consume_message\<close>

text \<open>The result is the decoded message, or \<open>JNull\<close> for \<^verbatim>\<open>return None\<close>.\<close>

definition consume_message_try :: "string \<Rightarrow> nat \<Rightarrow> world \<Rightarrow> (exn + json) \<times> world" where
  "consume_message_try queue_name timeout w =
     (case redis_brpop queue_name timeout w of
        (Inl e, w1) \<Rightarrow> (Inl e, w1)
      | (Inr None, w1) \<Rightarrow> (Inr JNull, w1)
      | (Inr (Some (k, message_json)), w1) \<Rightarrow>
          (case json_loads message_json of
             Inl e \<Rightarrow> (Inl e, w1)
           | Inr message \<Rightarrow>
               (Inr message, logger_info (''Message consumed from queue '' @ queue_name) w1)))"

definition consume_message :: "string \<Rightarrow> nat \<Rightarrow> world \<Rightarrow> (exn + json) \<times> world" where
  "consume_message queue_name timeout w =
     (if \<not> redis_client w then (Inl not_connected, w)
      else case consume_message_try queue_name timeout w of
             (Inl e, w') \<Rightarrow>
               (Inl e, logger_error (''Error consuming message from queue '' @ queue_name
                                      @ '': '' @ str_exn e) w')
           | (Inr message, w') \<Rightarrow> (Inr message, w'))"

subsection \<open>update_job_status\<close>

definition result_key :: "(json \<Rightarrow> string) \<Rightarrow> json \<Rightarrow> string" where
  "result_key fmt job_id = ''job_result:'' @ py_str fmt job_id"

definition pending_record :: "json \<Rightarrow> json" where
  "pending_record job_id = JObj [(''jobId'', job_id), (''status'', JStr ''pending'')]"

text \<open>\<^verbatim>\<open>Get existing result or create new one\<close>.\<close>

definition existing_or_new :: "payload option \<Rightarrow> json \<Rightarrow> exn + json" where
  "existing_or_new existing_result job_id =
     (case existing_result of
        None \<Rightarrow> Inr (pending_record job_id)
      | Some t \<Rightarrow> if text_truthy t then json_loads t else Inr (pending_record job_id))"

text \<open>\<^verbatim>\<open>Update status and result\<close>: the three assignments before the timestamp.\<close>

definition assign_fields :: "json \<Rightarrow> string \<Rightarrow> json \<Rightarrow> string option \<Rightarrow> exn + json" where
  "assign_fields job_result status result error_message =
     (case set_item job_result ''status'' (JStr status) of
        Inl e \<Rightarrow> Inl e
      | Inr j1 \<Rightarrow>
          (case (if py_truthy result then set_item j1 ''result'' result else Inr j1) of
             Inl e \<Rightarrow> Inl e
           | Inr j2 \<Rightarrow>
               (case error_message of
                  Some m \<Rightarrow> if m \<noteq> [] then set_item j2 ''errorMessage'' (JStr m) else Inr j2
                | None \<Rightarrow> Inr j2)))"

definition is_terminal :: "string \<Rightarrow> bool" where
  "is_terminal status = (status \<in> set [''completed'', ''failed''])"

definition stamp_completed :: "string \<Rightarrow> json \<Rightarrow> world \<Rightarrow> (exn + json) \<times> world" where
  "stamp_completed status job_result w =
     (if is_terminal status then
        (case utcnow_isoformat w of
           (now, w') \<Rightarrow> (set_item job_result ''completedAt'' (JStr now), w'))
      else (Inr job_result, w))"

definition ttl_24h :: nat where
  "ttl_24h = 24 * 3600"

definition update_job_status_try ::
  "(json \<Rightarrow> string) \<Rightarrow> json \<Rightarrow> string \<Rightarrow> json \<Rightarrow> string option \<Rightarrow> world
     \<Rightarrow> (exn + unit) \<times> world" where
  "update_job_status_try fmt job_id status result error_message w =
     (case redis_get (result_key fmt job_id) w of
        (Inl e, w1) \<Rightarrow> (Inl e, w1)
      | (Inr existing_result, w1) \<Rightarrow>
          (case existing_or_new existing_result job_id of
             Inl e \<Rightarrow> (Inl e, w1)
           | Inr job_result \<Rightarrow>
               (case assign_fields job_result status result error_message of
                  Inl e \<Rightarrow> (Inl e, w1)
                | Inr j \<Rightarrow>
                    (case stamp_completed status j w1 of
                       (Inl e, w2) \<Rightarrow> (Inl e, w2)
                     | (Inr j', w2) \<Rightarrow>
                         (case redis_setex (result_key fmt job_id) ttl_24h (json_dumps j') w2 of
                            (Inl e, w3) \<Rightarrow> (Inl e, w3)
                          | (Inr u, w3) \<Rightarrow>
                              (Inr (), logger_info (''Job '' @ py_str fmt job_id
                                         @ '' status updated to '' @ status) w3))))))"

definition update_job_status ::
  "(json \<Rightarrow> string) \<Rightarrow> json \<Rightarrow> string \<Rightarrow> json \<Rightarrow> string option \<Rightarrow> world
     \<Rightarrow> (exn + unit) \<times> world" where
  "update_job_status fmt job_id status result error_message w =
     (if \<not> redis_client w then (Inl not_connected, w)
      else case update_job_status_try fmt job_id status result error_message w of
             (Inl e, w') \<Rightarrow>
               (Inl e, logger_error (''Error updating job status for '' @ py_str fmt job_id
                                      @ '': '' @ str_exn e) w')
           | (Inr u, w') \<Rightarrow> (Inr u, w'))"

subsection \<open>get_job_result\<close>

definition get_job_result_try ::
  "(json \<Rightarrow> string) \<Rightarrow> json \<Rightarrow> world \<Rightarrow> (exn + json) \<times> world" where
  "get_job_result_try fmt job_id w =
     (case redis_get (result_key fmt job_id) w of
        (Inl e, w1) \<Rightarrow> (Inl e, w1)
      | (Inr None, w1) \<Rightarrow> (Inr JNull, w1)
      | (Inr (Some t), w1) \<Rightarrow>
          (if text_truthy t then
             (case json_loads t of Inl e \<Rightarrow> (Inl e, w1) | Inr v \<Rightarrow> (Inr v, w1))
           else (Inr JNull, w1)))"

definition get_job_result :: "(json \<Rightarrow> string) \<Rightarrow> json \<Rightarrow> world \<Rightarrow> (exn + json) \<times> world" where
  "get_job_result fmt job_id w =
     (if \<not> redis_client w then (Inl not_connected, w)
      else case get_job_result_try fmt job_id w of
             (Inl e, w') \<Rightarrow>
               (Inl e, logger_error (''Error getting job result for '' @ py_str fmt job_id
                                      @ '': '' @ str_exn e) w')
           | (Inr v, w') \<Rightarrow> (Inr v, w'))"

section \<open>JobProcessor\<close>

text \<open>
  A job handler (\<^verbatim>\<open>processor_func\<close>) is a parameter of the loop: a function from
  the message to the result it returns or the \<^verbatim>\<open>Exception\<close> it raises. Handlers do
  not touch the world of the queue client, and their results are JSON values, which
  \<^verbatim>\<open>json.dumps\<close> always serialises. Cancellation of a task is not modelled.
\<close>

type_synonym handler = "json \<Rightarrow> exn + json"

text \<open>The outer \<^verbatim>\<open>except Exception\<close> of the loop: log, then wait before retrying.\<close>

definition retry_later :: "string \<Rightarrow> exn \<Rightarrow> world \<Rightarrow> world" where
  "retry_later queue_name e w =
     asyncio_sleep 5
       (logger_error (''Error consuming from queue '' @ queue_name @ '': '' @ str_exn e) w)"

text \<open>
  The inner \<^verbatim>\<open>try\<close>: the handler call and the \<^verbatim>\<open>completed\<close> update stand in
  the same block, so an exception of either reaches the inner handler.
\<close>

definition run_job ::
  "(json \<Rightarrow> string) \<Rightarrow> handler \<Rightarrow> json \<Rightarrow> json \<Rightarrow> world \<Rightarrow> (exn + unit) \<times> world" where
  "run_job fmt processor_func job_id message w =
     (case processor_func message of
        Inl e \<Rightarrow> (Inl e, w)
      | Inr result \<Rightarrow> update_job_status fmt job_id ''completed'' result None w)"

definition process_job ::
  "(json \<Rightarrow> string) \<Rightarrow> handler \<Rightarrow> json \<Rightarrow> json \<Rightarrow> world \<Rightarrow> (exn + unit) \<times> world" where
  "process_job fmt processor_func job_id message w =
     (case update_job_status fmt job_id ''processing'' JNull None w of
        (Inl e, w1) \<Rightarrow> (Inl e, w1)
      | (Inr u, w1) \<Rightarrow>
          (case run_job fmt processor_func job_id message w1 of
             (Inl e, w2) \<Rightarrow>
               update_job_status fmt job_id ''failed'' JNull (Some (str_exn e))
                 (logger_error (''Error processing job '' @ py_str fmt job_id
                                 @ '': '' @ str_exn e) w2)
           | (Inr u', w2) \<Rightarrow> (Inr (), w2)))"

text \<open>The body of the outer \<^verbatim>\<open>try\<close> of one iteration.\<close>

definition consume_once ::
  "(json \<Rightarrow> string) \<Rightarrow> string \<Rightarrow> handler \<Rightarrow> world \<Rightarrow> (exn + unit) \<times> world" where
  "consume_once fmt queue_name processor_func w =
     (case consume_message queue_name 5 w of
        (Inl e, w1) \<Rightarrow> (Inl e, w1)
      | (Inr message, w1) \<Rightarrow>
          (if py_truthy message then
             (case dict_get message ''id'' of
                Inl e \<Rightarrow> (Inl e, w1)
              | Inr job_id \<Rightarrow>
                  (if py_truthy job_id then process_job fmt processor_func job_id message w1
                   else (Inr (), w1)))
           else (Inr (), w1)))"

text \<open>One iteration of \<^verbatim>\<open>while self.running\<close>.\<close>

definition consume_step ::
  "(json \<Rightarrow> string) \<Rightarrow> string \<Rightarrow> handler \<Rightarrow> world \<Rightarrow> world" where
  "consume_step fmt queue_name processor_func w =
     (case consume_once fmt queue_name processor_func w of
        (Inl e, w') \<Rightarrow> retry_later queue_name e w'
      | (Inr u, w') \<Rightarrow> w')"

text \<open>
  The loop runs for as long as \<open>running\<close> holds, which only \<^verbatim>\<open>stop\<close>, called from
  outside, ends. \<open>consume_queue n\<close> is its first \<open>n\<close> iterations.
\<close>

fun consume_queue ::
  "(json \<Rightarrow> string) \<Rightarrow> string \<Rightarrow> handler \<Rightarrow> nat \<Rightarrow> world \<Rightarrow> world" where
  "consume_queue fmt queue_name processor_func 0 w = w"
| "consume_queue fmt queue_name processor_func (Suc n) w =
     (if running w
      then consume_queue fmt queue_name processor_func n
             (consume_step fmt queue_name processor_func w)
      else w)"

definition stop :: "world \<Rightarrow> world" where
  "stop w = logger_info ''Job processor stopped'' (w\<lparr>running := False\<rparr>)"

text \<open>
  \<^verbatim>\<open>start\<close> creates one task per entry of this list: the task runs
  \<^verbatim>\<open>_consume_queue\<close> on the queue named, with the handler method named. The bodies
  of the five handler methods are a parameter \<open>methods\<close> of \<open>start\<close>.
\<close>

datatype processor =
    process_data_job
  | process_ml_training_job
  | process_prediction_job
  | process_visualization_job
  | process_statistics_job

definition start_tasks :: "(string \<times> processor) list" where
  "start_tasks =
     [(''analytics:data_processing'', process_data_job),
      (''analytics:model_training'', process_ml_training_job),
      (''analytics:prediction'', process_prediction_job),
      (''analytics:visualization'', process_visualization_job),
      (''analytics:statistical_analysis'', process_statistics_job)]"

text \<open>
  \<^verbatim>\<open>asyncio.gather\<close> runs the tasks interleaved. What happens next is an event of
  the schedule: the task with a given number runs one more iteration of its loop (a task
  that finds \<open>running\<close> false has returned and does nothing; a number that is no task
  does nothing), or \<^verbatim>\<open>stop\<close> is called from outside. In the model a task is
  switched only between two iterations of its loop. The loops catch every exception, so
  none reaches \<^verbatim>\<open>gather\<close> and the \<^verbatim>\<open>except\<close> branch of \<^verbatim>\<open>start\<close> is
  never taken.
\<close>

datatype event = Turn nat | StopCalled

fun gather ::
  "(json \<Rightarrow> string) \<Rightarrow> (processor \<Rightarrow> handler) \<Rightarrow> (string \<times> processor) list
     \<Rightarrow> event list \<Rightarrow> world \<Rightarrow> world" where
  "gather fmt methods tasks [] w = w"
| "gather fmt methods tasks (Turn i # schedule) w =
     gather fmt methods tasks schedule
       (if i < length tasks
        then consume_queue fmt (fst (tasks ! i)) (methods (snd (tasks ! i))) 1 w
        else w)"
| "gather fmt methods tasks (StopCalled # schedule) w =
     gather fmt methods tasks schedule (stop w)"

text \<open>
  \<^verbatim>\<open>start\<close>: set \<open>running\<close>, log, create the five tasks, wait for all of them,
  and clear \<open>running\<close> at the end. It returns only when every loop has returned:
  the result is \<open>None\<close> when the loops are still running at the end of the schedule.
\<close>

definition start ::
  "(json \<Rightarrow> string) \<Rightarrow> (processor \<Rightarrow> handler) \<Rightarrow> event list \<Rightarrow> world \<Rightarrow> world option" where
  "start fmt methods schedule w =
     (let w1 = logger_info ''Job processor started'' (w\<lparr>running := True\<rparr>);
          tasks = start_tasks;
          w2 = gather fmt methods tasks schedule w1
      in if running w2 then None else Some (w2\<lparr>running := False\<rparr>))"

section \<open>Notions used in the statements\<close>

text \<open>The text stored under a key of the Result Store, without its expiration.\<close>

definition stored :: "world \<Rightarrow> string \<Rightarrow> payload option" where
  "stored w key = map_option fst (strings_db w key)"

text \<open>
  What the assignments of \<^verbatim>\<open>update_job_status\<close> make of the fields \<open>r\<close> of a
  dict, and what the timestamp adds for the time \<open>now\<close>; \<open>assign_fields\<close> and
  \<open>stamp_completed\<close> are shown below to compute exactly these on a dict.
\<close>

definition assigned ::
  "(string \<times> json) list \<Rightarrow> string \<Rightarrow> json \<Rightarrow> string option \<Rightarrow> (string \<times> json) list" where
  "assigned r status result error_message =
     (let r1 = AList.update ''status'' (JStr status) r;
          r2 = (if py_truthy result then AList.update ''result'' result r1 else r1)
      in case error_message of
           Some m \<Rightarrow> if m \<noteq> [] then AList.update ''errorMessage'' (JStr m) r2 else r2
         | None \<Rightarrow> r2)"

definition stamped :: "string \<Rightarrow> string \<Rightarrow> (string \<times> json) list \<Rightarrow> (string \<times> json) list" where
  "stamped status now r =
     (if is_terminal status then AList.update ''completedAt'' (JStr now) r else r)"

text \<open>The world after a status update that went through and stored the fields \<open>r\<close>.\<close>

definition written ::
  "(json \<Rightarrow> string) \<Rightarrow> json \<Rightarrow> string \<Rightarrow> (string \<times> json) list \<Rightarrow> world \<Rightarrow> world" where
  "written fmt job_id status r w =
     w\<lparr>strings_db := (strings_db w)(result_key fmt job_id \<mapsto> (Encoded (JObj r), ttl_24h)),
       faults := drop 2 (faults w),
       clock := (if is_terminal status then (\<lambda>n. clock w (Suc n)) else clock w),
       logger := logger w @ [(INFO, ''Job '' @ py_str fmt job_id
                                     @ '' status updated to '' @ status)]\<rparr>"

text \<open>The world after a message was taken from the tail of a queue and decoded.\<close>

definition taken :: "string \<Rightarrow> payload list \<Rightarrow> world \<Rightarrow> world" where
  "taken queue_name rest w =
     w\<lparr>lists_db := (lists_db w)(queue_name := rest),
       logger := logger w @ [(INFO, ''Message consumed from queue '' @ queue_name)]\<rparr>"

text \<open>The five kinds of job the specification recognises.\<close>

definition recognized_kinds :: "string list" where
  "recognized_kinds =
     [''data_processing'', ''model_training'', ''prediction'', ''visualization'',
      ''statistical_analysis'']"

text \<open>A world whose queue \<open>queue_name\<close> holds the texts \<open>ps\<close>, head first.\<close>

definition queued :: "string \<Rightarrow> payload list \<Rightarrow> world \<Rightarrow> world" where
  "queued queue_name ps w = w\<lparr>lists_db := (lists_db w)(queue_name := ps)\<rparr>"

text \<open>
  A concrete world for the examples: a connected client, a running processor, an empty
  Redis that never fails, and a clock that reads 10:00:00 first and 10:00:05 afterwards.
\<close>

definition two_ticks :: "nat \<Rightarrow> string" where
  "two_ticks n = (if n = 0 then ''2024-01-16T10:00:00'' else ''2024-01-16T10:00:05'')"

definition idle_world :: world where
  "idle_world =
     \<lparr>redis_client = True, running = True, lists_db = (\<lambda>k. []), strings_db = Map.empty,
      published = [], faults = [], clock = two_ticks, logger = [], slept = 0\<rparr>"

definition no_fmt :: "json \<Rightarrow> string" where
  "no_fmt v = ''?''"



text \<open>
  The key of the Job Record that the iteration taking the text \<open>p\<close> from the queue may
  write: the one of the job id, when \<open>p\<close> decodes to a dict with a truthy id.
\<close>

definition job_key :: "(json \<Rightarrow> string) \<Rightarrow> payload \<Rightarrow> string option" where
  "job_key fmt p =
     (case p of
        Encoded (JObj m) \<Rightarrow>
          (case map_of m ''id'' of
             Some job_id \<Rightarrow> if py_truthy job_id then Some (result_key fmt job_id) else None
           | None \<Rightarrow> None)
      | _ \<Rightarrow> None)"

fun is_dict :: "json \<Rightarrow> bool" where
  "is_dict (JObj kvs) = True"
| "is_dict v = False"

text \<open>
  What an operation that may write the record under \<open>key\<close> leaves alone: the service
  objects, the queues, every other record; a Redis that does not fail goes on not
  failing; and under \<open>key\<close> there is the old text or a dict stored for 24 hours.
\<close>

definition keeps :: "string \<Rightarrow> world \<Rightarrow> world \<Rightarrow> bool" where
  "keeps key w w' \<longleftrightarrow>
     redis_client w' = redis_client w \<and> running w' = running w
     \<and> lists_db w' = lists_db w \<and> published w' = published w
     \<and> (faults w = [] \<longrightarrow> faults w' = [])
     \<and> (\<forall>k. k \<noteq> key \<longrightarrow> strings_db w' k = strings_db w k)
     \<and> (strings_db w' key = strings_db w key
          \<or> (\<exists>r. strings_db w' key = Some (Encoded (JObj r), ttl_24h)))"

section \<open>Status updates: what a call stores\<close>

lemma assign_fields_Inr:
  "assign_fields j st res err = Inr j' \<longleftrightarrow> (\<exists>r. j = JObj r \<and> j' = JObj (assigned r st res err))"
  by (cases j) (auto simp: assign_fields_def assigned_def set_item_def Let_def split: option.splits)

lemma assign_fields_obj:
  "assign_fields (JObj r) st res err = Inr (JObj (assigned r st res err))"
  by (simp add: assign_fields_Inr)

lemma stamp_completed_obj:
  "stamp_completed st (JObj r) w =
     (Inr (JObj (stamped st (clock w 0) r)),
      w\<lparr>clock := (if is_terminal st then (\<lambda>n. clock w (Suc n)) else clock w)\<rparr>)"
  by (simp add: stamp_completed_def stamped_def utcnow_isoformat_def set_item_def)

lemma update_try_Inr:
  assumes "update_job_status_try fmt jid st res err w = (Inr u, w')"
  shows "\<exists>r0. existing_or_new (stored w (result_key fmt jid)) jid = Inr (JObj r0)
           \<and> w' = written fmt jid st (stamped st (clock w 0) (assigned r0 st res err)) w"
  using assms
  unfolding update_job_status_try_def redis_get_def redis_setex_def stored_def written_def
  by (auto simp: assign_fields_Inr stamp_completed_obj logger_info_def json_dumps_def redis_fault_def
       split: prod.splits sum.splits option.splits list.splits if_splits)

lemma update_Inr:
  assumes "update_job_status fmt jid st res err w = (Inr u, w')"
  shows "\<exists>r0. existing_or_new (stored w (result_key fmt jid)) jid = Inr (JObj r0)
           \<and> w' = written fmt jid st (stamped st (clock w 0) (assigned r0 st res err)) w"
  using assms update_try_Inr[of fmt jid st res err w]
  unfolding update_job_status_def
  by (auto split: if_splits prod.splits sum.splits)

lemma update_ok:
  assumes "redis_client w" "faults w = []"
    and "existing_or_new (stored w (result_key fmt jid)) jid = Inr (JObj r0)"
  shows "update_job_status fmt jid st res err w
           = (Inr (), written fmt jid st (stamped st (clock w 0) (assigned r0 st res err)) w)"
  using assms
  unfolding update_job_status_def update_job_status_try_def redis_get_def redis_setex_def stored_def written_def
  by (simp add: assign_fields_obj stamp_completed_obj logger_info_def json_dumps_def redis_fault_def)

lemma update_try_Inl:
  assumes "update_job_status_try fmt jid st res err w = (Inl e, w')"
  shows "strings_db w' = strings_db w"
  using assms
  unfolding update_job_status_try_def redis_get_def redis_setex_def
  by (auto simp: stamp_completed_def utcnow_isoformat_def redis_fault_def
       split: prod.splits sum.splits option.splits list.splits if_splits)

lemma update_Inl:
  assumes "update_job_status fmt jid st res err w = (Inl e, w')"
  shows "strings_db w' = strings_db w"
  using assms update_try_Inl[of fmt jid st res err w]
  unfolding update_job_status_def
  by (auto simp: logger_error_def split: if_splits prod.splits sum.splits)

lemma stored_written:
  "strings_db (written fmt jid st r w) (result_key fmt jid) = Some (Encoded (JObj r), ttl_24h)"
  by (simp add: written_def)

lemma map_of_assigned:
  "map_of (assigned r st res err) k =
     (if k = ''errorMessage'' \<and> (\<exists>m. err = Some m \<and> m \<noteq> []) then map_option JStr err
      else if k = ''result'' \<and> py_truthy res then Some res
      else if k = ''status'' then Some (JStr st)
      else map_of r k)"
  by (auto simp: assigned_def Let_def AList.update_conv' split: option.splits)

lemma map_of_stamped:
  "map_of (stamped st now r) k =
     (if k = ''completedAt'' \<and> is_terminal st then Some (JStr now) else map_of r k)"
  by (simp add: stamped_def AList.update_conv')

lemma assigned_again:
  "assigned (stamped st now (assigned r st res err)) st res err = stamped st now (assigned r st res err)"
proof -
  define r1 where "r1 = stamped st now (assigned r st res err)"
  have s: "AList.update ''status'' (JStr st) r1 = r1"
    unfolding r1_def by (rule AList.update_triv) (simp add: map_of_stamped map_of_assigned)
  have r: "py_truthy res \<Longrightarrow> AList.update ''result'' res r1 = r1"
    unfolding r1_def by (rule AList.update_triv) (simp add: map_of_stamped map_of_assigned)
  have e: "\<And>m. err = Some m \<Longrightarrow> m \<noteq> [] \<Longrightarrow> AList.update ''errorMessage'' (JStr m) r1 = r1"
    unfolding r1_def by (rule AList.update_triv) (simp add: map_of_stamped map_of_assigned)
  have "assigned r1 st res err = r1"
    by (cases err) (simp_all add: assigned_def Let_def s r e)
  then show ?thesis by (simp add: r1_def)
qed

lemma existing_or_new_absent:
  "strings_db w key = None \<Longrightarrow> existing_or_new (stored w key) jid = Inr (pending_record jid)"
  by (simp add: existing_or_new_def stored_def)

lemma update_Inr_record:
  assumes "update_job_status fmt jid st res err w = (Inr u, w')"
  shows "\<exists>r0. existing_or_new (stored w (result_key fmt jid)) jid = Inr (JObj r0)
           \<and> strings_db w' (result_key fmt jid)
               = Some (Encoded (JObj (stamped st (clock w 0) (assigned r0 st res err))), ttl_24h)"
  using update_Inr [OF assms] by (auto simp: stored_written)

lemma existing_or_new_record:
  "strings_db w key = Some (Encoded (JObj r), n) \<Longrightarrow> existing_or_new (stored w key) jid = Inr (JObj r)"
  by (simp add: existing_or_new_def stored_def)

section \<open>The queue: what publishing and consuming do\<close>

lemma redis_fault_none: "faults w = [] \<Longrightarrow> redis_fault w = (None, w)"
  by (simp add: redis_fault_def)

lemma redis_brpop_last:
  "faults w = [] \<Longrightarrow> lists_db w q = xs @ [x] \<Longrightarrow>
     redis_brpop q t w = (Inr (Some (q, x)), w\<lparr>lists_db := (lists_db w)(q := xs)\<rparr>)"
proof -
  assume f: "faults w = []" and l: "lists_db w q = xs @ [x]"
  obtain y ys where "xs @ [x] = y # ys"
    by (cases xs) auto
  with l have c: "lists_db w q = y # ys"
    by simp
  have "last (y # ys) = x" "butlast (y # ys) = xs"
    using l c by (metis last_snoc, metis butlast_snoc)
  then show ?thesis
    using c f by (simp add: redis_brpop_def redis_fault_none del: last.simps butlast.simps)
qed

lemma redis_brpop_empty:
  "faults w = [] \<Longrightarrow> lists_db w q = [] \<Longrightarrow> redis_brpop q t w = (Inr None, w)"
  by (simp add: redis_brpop_def redis_fault_none)


lemma publish_message_Inr:
  assumes "publish_message q m w = (Inr u, w')"
  shows "lists_db w' q = Encoded m # lists_db w q
       \<and> published w' = published w @ [(q @ '':notification'', Encoded m)]"
  using assms
  by (auto simp: publish_message_def publish_message_try_def redis_lpush_def redis_publish_def
        redis_fault_def json_dumps_def logger_info_def Let_def
      split: if_splits prod.splits sum.splits option.splits list.splits)

lemma consume_message_ok:
  assumes "redis_client w" "faults w = []" "lists_db w q = xs @ [Encoded v]"
  shows "consume_message q t w = (Inr v, taken q xs w)"
  using assms
  by (simp add: consume_message_def consume_message_try_def redis_brpop_last logger_info_def
        taken_def)

lemma consume_message_malformed:
  assumes "redis_client w" "faults w = []" "lists_db w q = xs @ [Malformed raw diag]"
  shows "consume_message q t w =
           (Inl (JSONDecodeError diag),
            w\<lparr>lists_db := (lists_db w)(q := xs),
              logger := logger w @ [(ERROR, ''Error consuming message from queue '' @ q
                                             @ '': '' @ diag)]\<rparr>)"
  using assms
  by (simp add: consume_message_def consume_message_try_def redis_brpop_last logger_error_def)

lemma consume_message_empty:
  assumes "redis_client w" "faults w = []" "lists_db w q = []"
  shows "consume_message q t w = (Inr JNull, w)"
  using assms
  by (simp add: consume_message_def consume_message_try_def redis_brpop_empty)

section \<open>The loop: one job\<close>

lemma taken_simps:
  "redis_client (taken q xs w) = redis_client w"
  "running (taken q xs w) = running w"
  "faults (taken q xs w) = faults w"
  "strings_db (taken q xs w) = strings_db w"
  "clock (taken q xs w) = clock w"
  "slept (taken q xs w) = slept w"
  "published (taken q xs w) = published w"
  "lists_db (taken q xs w) = (lists_db w)(q := xs)"
  "stored (taken q xs w) = stored w"
  by (simp_all add: taken_def stored_def fun_eq_iff)

lemma written_simps:
  "redis_client (written fmt jid st r w) = redis_client w"
  "running (written fmt jid st r w) = running w"
  "faults (written fmt jid st r w) = drop 2 (faults w)"
  "lists_db (written fmt jid st r w) = lists_db w"
  "slept (written fmt jid st r w) = slept w"
  "published (written fmt jid st r w) = published w"
  "strings_db (written fmt jid st r w)
     = (strings_db w)(result_key fmt jid \<mapsto> (Encoded (JObj r), ttl_24h))"
  "clock (written fmt jid st r w) = (if is_terminal st then (\<lambda>n. clock w (Suc n)) else clock w)"
  by (simp_all add: written_def)

lemma logger_error_simps:
  "redis_client (logger_error m w) = redis_client w"
  "running (logger_error m w) = running w"
  "faults (logger_error m w) = faults w"
  "lists_db (logger_error m w) = lists_db w"
  "slept (logger_error m w) = slept w"
  "published (logger_error m w) = published w"
  "strings_db (logger_error m w) = strings_db w"
  "clock (logger_error m w) = clock w"
  by (simp_all add: logger_error_def)

lemma processing_fields:
  "stamped ''processing'' now (assigned r ''processing'' JNull None)
     = AList.update ''status'' (JStr ''processing'') r"
  by (simp add: stamped_def assigned_def is_terminal_def)

text \<open>
  The two ways through \<open>process_job\<close> when Redis does not fail and the record found
  under the key is absent or a dict: the handler raises, or it returns.
\<close>

lemma process_job_raises:
  assumes "redis_client w" "faults w = []"
    and "existing_or_new (stored w (result_key fmt jid)) jid = Inr (JObj r0)"
    and "h msg = Inl e"
  shows "process_job fmt h jid msg w =
           (Inr (),
            written fmt jid ''failed''
              (stamped ''failed'' (clock w 0)
                 (assigned (AList.update ''status'' (JStr ''processing'') r0)
                    ''failed'' JNull (Some (str_exn e))))
              (logger_error (''Error processing job '' @ py_str fmt jid @ '': '' @ str_exn e)
                 (written fmt jid ''processing''
                    (AList.update ''status'' (JStr ''processing'') r0) w)))"
proof -
  let ?rp = "AList.update ''status'' (JStr ''processing'') r0"
  let ?w1 = "written fmt jid ''processing'' ?rp w"
  let ?w2 = "logger_error (''Error processing job '' @ py_str fmt jid @ '': '' @ str_exn e) ?w1"
  have first: "update_job_status fmt jid ''processing'' JNull None w = (Inr (), ?w1)"
    using update_ok [OF assms(1,2,3), of "''processing''" JNull None]
    by (simp add: processing_fields)
  have base2: "existing_or_new (stored ?w2 (result_key fmt jid)) jid = Inr (JObj ?rp)"
    by (simp add: existing_or_new_def stored_def logger_error_simps written_simps)
  have c2: "redis_client ?w2" and f2: "faults ?w2 = []"
    using assms(1,2) by (simp_all add: logger_error_simps written_simps)
  have last: "update_job_status fmt jid ''failed'' JNull (Some (str_exn e)) ?w2
        = (Inr (), written fmt jid ''failed''
             (stamped ''failed'' (clock ?w2 0) (assigned ?rp ''failed'' JNull (Some (str_exn e)))) ?w2)"
    by (rule update_ok [OF c2 f2 base2])
  have ck: "clock ?w2 0 = clock w 0"
    by (simp add: logger_error_simps written_simps is_terminal_def)
  show ?thesis
    unfolding process_job_def run_job_def
    using first last [unfolded ck] assms(4) by simp
qed

lemma process_job_returns:
  assumes "redis_client w" "faults w = []"
    and "existing_or_new (stored w (result_key fmt jid)) jid = Inr (JObj r0)"
    and "h msg = Inr res"
  shows "process_job fmt h jid msg w =
           (Inr (),
            written fmt jid ''completed''
              (stamped ''completed'' (clock w 0)
                 (assigned (AList.update ''status'' (JStr ''processing'') r0)
                    ''completed'' res None))
              (written fmt jid ''processing''
                 (AList.update ''status'' (JStr ''processing'') r0) w))"
proof -
  let ?rp = "AList.update ''status'' (JStr ''processing'') r0"
  let ?w1 = "written fmt jid ''processing'' ?rp w"
  have first: "update_job_status fmt jid ''processing'' JNull None w = (Inr (), ?w1)"
    using update_ok [OF assms(1,2,3), of "''processing''" JNull None]
    by (simp add: processing_fields)
  have base2: "existing_or_new (stored ?w1 (result_key fmt jid)) jid = Inr (JObj ?rp)"
    by (simp add: existing_or_new_def stored_def written_simps)
  have c2: "redis_client ?w1" and f2: "faults ?w1 = []"
    using assms(1,2) by (simp_all add: written_simps)
  have last: "update_job_status fmt jid ''completed'' res None ?w1
        = (Inr (), written fmt jid ''completed''
             (stamped ''completed'' (clock ?w1 0) (assigned ?rp ''completed'' res None)) ?w1)"
    by (rule update_ok [OF c2 f2 base2])
  have ck: "clock ?w1 0 = clock w 0"
    by (simp add: written_simps is_terminal_def)
  show ?thesis
    unfolding process_job_def run_job_def
    using first last [unfolded ck] assms(4) by simp
qed

lemma consume_once_job:
  assumes "redis_client w" "faults w = []" "lists_db w q = xs @ [Encoded (JObj m)]"
    and "map_of m ''id'' = Some jid" "py_truthy jid"
  shows "consume_once fmt q h w = process_job fmt h jid (JObj m) (taken q xs w)"
proof -
  have ne: "m \<noteq> []" using assms(4) by auto
  show ?thesis
    unfolding consume_once_def
    using consume_message_ok [OF assms(1,2,3), of 5] assms(4,5) ne
    by (simp add: dict_get_def)
qed

lemma consume_step_raises:
  assumes "redis_client w" "faults w = []" "lists_db w q = xs @ [Encoded (JObj m)]"
    and "map_of m ''id'' = Some jid" "py_truthy jid"
    and "existing_or_new (stored w (result_key fmt jid)) jid = Inr (JObj r0)"
    and "h (JObj m) = Inl e"
  shows "consume_step fmt q h w =
           written fmt jid ''failed''
              (stamped ''failed'' (clock w 0)
                 (assigned (AList.update ''status'' (JStr ''processing'') r0)
                    ''failed'' JNull (Some (str_exn e))))
              (logger_error (''Error processing job '' @ py_str fmt jid @ '': '' @ str_exn e)
                 (written fmt jid ''processing''
                    (AList.update ''status'' (JStr ''processing'') r0) (taken q xs w)))"
proof -
  have c: "redis_client (taken q xs w)" and f: "faults (taken q xs w) = []"
    and b: "existing_or_new (stored (taken q xs w) (result_key fmt jid)) jid = Inr (JObj r0)"
    using assms(1,2,6) by (simp_all add: taken_simps)
  have ck: "clock (taken q xs w) 0 = clock w 0"
    by (simp add: taken_simps)
  show ?thesis
    unfolding consume_step_def consume_once_job [OF assms(1-5)]
      process_job_raises [where h = h and msg = "JObj m", OF c f b assms(7), unfolded ck]
    by simp
qed

lemma consume_step_returns:
  assumes "redis_client w" "faults w = []" "lists_db w q = xs @ [Encoded (JObj m)]"
    and "map_of m ''id'' = Some jid" "py_truthy jid"
    and "existing_or_new (stored w (result_key fmt jid)) jid = Inr (JObj r0)"
    and "h (JObj m) = Inr res"
  shows "consume_step fmt q h w =
           written fmt jid ''completed''
              (stamped ''completed'' (clock w 0)
                 (assigned (AList.update ''status'' (JStr ''processing'') r0)
                    ''completed'' res None))
              (written fmt jid ''processing''
                 (AList.update ''status'' (JStr ''processing'') r0) (taken q xs w))"
proof -
  have c: "redis_client (taken q xs w)" and f: "faults (taken q xs w) = []"
    and b: "existing_or_new (stored (taken q xs w) (result_key fmt jid)) jid = Inr (JObj r0)"
    using assms(1,2,6) by (simp_all add: taken_simps)
  have ck: "clock (taken q xs w) 0 = clock w 0"
    by (simp add: taken_simps)
  show ?thesis
    unfolding consume_step_def consume_once_job [OF assms(1-5)]
      process_job_returns [where h = h and msg = "JObj m", OF c f b assms(7), unfolded ck]
    by simp
qed


lemma update_Inr_client:
  "update_job_status fmt jid st res err w = (Inr u, w') \<Longrightarrow> redis_client w"
  by (auto simp: update_job_status_def split: if_splits)

section \<open>What the operations leave alone\<close>

lemma keeps_refl: "keeps key w w"
  by (simp add: keeps_def)

lemma keeps_trans: "keeps key w w1 \<Longrightarrow> keeps key w1 w2 \<Longrightarrow> keeps key w w2"
  unfolding keeps_def by (elim conjE, intro conjI) (simp_all, metis)

lemma keeps_logger_error: "keeps key w (logger_error m w)"
  by (simp add: keeps_def logger_error_def)

lemma keeps_written: "keeps (result_key fmt jid) w (written fmt jid st r w)"
  by (simp add: keeps_def written_def)

lemma update_try_Inl_keeps:
  assumes "update_job_status_try fmt jid st res err w = (Inl e, w')"
  shows "keeps (result_key fmt jid) w w'"
  using assms
  unfolding update_job_status_try_def redis_get_def redis_setex_def keeps_def
  by (auto simp: stamp_completed_def utcnow_isoformat_def redis_fault_def
       split: prod.splits sum.splits option.splits list.splits if_splits)

lemma update_keeps: "keeps (result_key fmt jid) w (snd (update_job_status fmt jid st res err w))"
proof (cases "update_job_status fmt jid st res err w")
  case (Pair x w')
  show ?thesis
  proof (cases x)
    case (Inr u)
    with Pair update_Inr [of fmt jid st res err w u w'] show ?thesis
      by (auto simp: keeps_written)
  next
    case (Inl e)
    with Pair have "\<not> redis_client w \<and> w' = w
        \<or> (\<exists>w1. update_job_status_try fmt jid st res err w = (Inl e, w1)
                 \<and> w' = logger_error (''Error updating job status for '' @ py_str fmt jid
                                         @ '': '' @ str_exn e) w1)"
      unfolding update_job_status_def
      by (auto split: if_splits prod.splits sum.splits)
    then show ?thesis
      using Pair
      by (auto simp: keeps_refl intro: keeps_trans [OF update_try_Inl_keeps keeps_logger_error])
  qed
qed

lemma process_job_keeps:
  "keeps (result_key fmt jid) w (snd (process_job fmt h jid msg w))"
proof -
  let ?k = "result_key fmt jid"
  obtain x1 w1 where u1: "update_job_status fmt jid ''processing'' JNull None w = (x1, w1)"
    by (cases "update_job_status fmt jid ''processing'' JNull None w")
  have k1: "keeps ?k w w1"
    using update_keeps [of fmt jid w "''processing''" JNull None] u1 by simp
  show ?thesis
  proof (cases x1)
    case (Inl e)
    then show ?thesis using u1 k1 by (simp add: process_job_def)
  next
    case (Inr u)
    obtain x2 w2 where r: "run_job fmt h jid msg w1 = (x2, w2)"
      by (cases "run_job fmt h jid msg w1")
    have k2: "keeps ?k w1 w2"
    proof (cases "h msg")
      case (Inl e)
      then show ?thesis using r by (auto simp: run_job_def keeps_refl)
    next
      case (Inr res)
      then show ?thesis
        using r update_keeps [of fmt jid w1 "''completed''" res None]
        by (auto simp: run_job_def)
    qed
    show ?thesis
    proof (cases x2)
      case (Inr u')
      then show ?thesis
        using u1 \<open>x1 = Inr u\<close> r keeps_trans [OF k1 k2] by (simp add: process_job_def)
    next
      case (Inl e)
      let ?w3 = "logger_error (''Error processing job '' @ py_str fmt jid @ '': '' @ str_exn e) w2"
      have "keeps ?k w2 (snd (update_job_status fmt jid ''failed'' JNull (Some (str_exn e)) ?w3))"
        by (rule keeps_trans [OF keeps_logger_error update_keeps])
      then show ?thesis
        using u1 \<open>x1 = Inr u\<close> r Inl keeps_trans [OF keeps_trans [OF k1 k2]]
        by (simp add: process_job_def)
    qed
  qed
qed

section \<open>One iteration and many\<close>


lemma retry_later_simps:
  "redis_client (retry_later q e w) = redis_client w"
  "running (retry_later q e w) = running w"
  "faults (retry_later q e w) = faults w"
  "lists_db (retry_later q e w) = lists_db w"
  "strings_db (retry_later q e w) = strings_db w"
  "published (retry_later q e w) = published w"
  by (simp_all add: retry_later_def asyncio_sleep_def logger_error_def)


lemma consume_step_no_job:
  assumes "redis_client w" "faults w = []" "lists_db w q = xs @ [Encoded v]"
    and "job_key fmt (Encoded v) = None"
  shows "consume_step fmt q h w
           = (if py_truthy v \<and> \<not> is_dict v
              then retry_later q
                     (AttributeError (quoted (type_name v) @ '' object has no attribute ''
                                        @ quoted ''get''))
                     (taken q xs w)
              else taken q xs w)"
  unfolding consume_step_def consume_once_def consume_message_ok [OF assms(1,2,3), of 5]
  using assms(4)
  by (cases v) (auto simp: dict_get_def job_key_def split: option.splits if_splits)




lemma consume_queue_stopped: "\<not> running w \<Longrightarrow> consume_queue fmt q h n w = w"
  by (cases n) simp_all



section \<open>Many messages\<close>






section \<open>The tasks of start\<close>

lemma consume_message_other_queue:
  "q' \<noteq> q \<Longrightarrow> lists_db (snd (consume_message q t w)) q' = lists_db w q'"
  unfolding consume_message_def consume_message_try_def redis_brpop_def redis_fault_def
  by (auto simp: logger_error_def logger_info_def
        split: prod.splits sum.splits option.splits list.splits payload.splits)

lemma consume_once_lists:
  "lists_db (snd (consume_once fmt q h w)) = lists_db (snd (consume_message q 5 w))"
proof (cases "consume_message q 5 w")
  case (Pair x w1)
  show ?thesis
  proof (cases x)
    case (Inl e)
    with Pair show ?thesis by (simp add: consume_once_def)
  next
    case (Inr message)
    show ?thesis
    proof (cases "dict_get message ''id''")
      case (Inl e)
      with Pair Inr show ?thesis by (simp add: consume_once_def)
    next
      case job: (Inr job_id)
      have "lists_db (snd (process_job fmt h job_id message w1)) = lists_db w1"
        using process_job_keeps [of fmt job_id w1 h message] by (simp add: keeps_def)
      with Pair Inr job show ?thesis by (simp add: consume_once_def)
    qed
  qed
qed

lemma consume_step_other_queue:
  "q' \<noteq> q \<Longrightarrow> lists_db (consume_step fmt q h w) q' = lists_db w q'"
proof -
  assume ne: "q' \<noteq> q"
  obtain x w1 where c: "consume_once fmt q h w = (x, w1)"
    by (cases "consume_once fmt q h w")
  have "lists_db w1 q' = lists_db w q'"
    using consume_once_lists [of fmt q h w] consume_message_other_queue [OF ne, of 5 w] c
    by simp
  then show ?thesis
    using c by (cases x) (simp_all add: consume_step_def retry_later_simps)
qed

lemma consume_queue_once:
  "consume_queue fmt q h n (consume_queue fmt q h (Suc 0) w) = consume_queue fmt q h (Suc n) w"
  by (cases "running w") (simp_all add: consume_queue_stopped)

lemma gather_turns:
  "i < length tasks \<Longrightarrow>
     gather fmt methods tasks (replicate n (Turn i) @ schedule) w
       = gather fmt methods tasks schedule
           (consume_queue fmt (fst (tasks ! i)) (methods (snd (tasks ! i))) n w)"
proof (induction n arbitrary: w)
  case 0
  then show ?case by simp
next
  case (Suc n)
  from Suc.IH [OF Suc.prems] show ?case
    using Suc.prems by (simp add: consume_queue_once del: consume_queue.simps)
qed

lemma gather_no_task:
  "\<not> i < length tasks \<Longrightarrow>
     gather fmt methods tasks (replicate n (Turn i) @ schedule) w
       = gather fmt methods tasks schedule w"
  by (induction n arbitrary: w) simp_all

lemma gather_other_queue:
  "q \<notin> fst ` set tasks \<Longrightarrow> lists_db (gather fmt methods tasks schedule w) q = lists_db w q"
proof (induction schedule arbitrary: w)
  case Nil
  then show ?case by simp
next
  case (Cons ev schedule)
  show ?case
  proof (cases ev)
    case StopCalled
    with Cons show ?thesis by (simp add: stop_def logger_info_def)
  next
    case (Turn i)
    show ?thesis
    proof (cases "i < length tasks \<and> running w")
      case True
      then have "q \<noteq> fst (tasks ! i)"
        using Cons.prems by (metis image_eqI nth_mem)
      then have "lists_db (consume_step fmt (fst (tasks ! i)) (methods (snd (tasks ! i))) w) q
                   = lists_db w q"
        by (rule consume_step_other_queue)
      with Cons Turn True show ?thesis by simp
    next
      case False
      with Cons Turn show ?thesis by auto
    qed
  qed
qed

text \<open>Definitions to unfold when a concrete call is evaluated.\<close>

lemmas update_eval = update_job_status_def update_job_status_try_def redis_get_def redis_setex_def
  redis_fault_def existing_or_new_def pending_record_def assign_fields_def set_item_def
  stamp_completed_def is_terminal_def utcnow_isoformat_def json_dumps_def logger_info_def
  logger_error_def result_key_def py_str_def ttl_24h_def idle_world_def two_ticks_def

lemmas loop_eval = consume_step_def consume_once_def consume_message_def consume_message_try_def
  redis_brpop_def process_job_def run_job_def retry_later_def asyncio_sleep_def dict_get_def
  queued_def publish_message_def publish_message_try_def redis_lpush_def redis_publish_def

section \<open>C6: a status update is an upsert\<close>

text \<open>
  Claim C6. \<^verbatim>\<open>update_job_status\<close> is an upsert. For a job id with no record in the
  Result Store (client connected, Redis not failing), the call does not fail: it starts
  from the synthesized record \<^verbatim>\<open>{"jobId": job_id, "status": "pending"}\<close>, which
  has no result and no error field, applies the incoming update to it and stores the
  outcome under \<^verbatim>\<open>job_result:<job_id>\<close> for 24 hours. The stored record has the
  job id, the incoming status, the result only if one was passed and the error message
  only if one was passed.
\<close>

theorem set_status_upsert:
  assumes "redis_client w" and "faults w = []"
    and "strings_db w (result_key fmt job_id) = None"
  shows "\<exists>r w'. update_job_status fmt job_id status result error_message w = (Inr (), w')
           \<and> strings_db w' (result_key fmt job_id) = Some (json_dumps (JObj r), ttl_24h)
           \<and> pending_record job_id = JObj [(''jobId'', job_id), (''status'', JStr ''pending'')]
           \<and> assign_fields (pending_record job_id) status result error_message
               = Inr (JObj (assigned [(''jobId'', job_id), (''status'', JStr ''pending'')]
                              status result error_message))
           \<and> r = stamped status (clock w 0)
                   (assigned [(''jobId'', job_id), (''status'', JStr ''pending'')]
                      status result error_message)
           \<and> map_of r ''jobId'' = Some job_id
           \<and> map_of r ''status'' = Some (JStr status)
           \<and> map_of r ''result'' = (if py_truthy result then Some result else None)
           \<and> map_of r ''errorMessage''
               = (case error_message of
                    Some m \<Rightarrow> if m \<noteq> [] then Some (JStr m) else None
                  | None \<Rightarrow> None)"
proof -
  let ?old = "[(''jobId'', job_id), (''status'', JStr ''pending'')]"
  let ?new = "stamped status (clock w 0) (assigned ?old status result error_message)"
  have base: "existing_or_new (stored w (result_key fmt job_id)) job_id = Inr (JObj ?old)"
    using assms(3) by (simp add: existing_or_new_absent pending_record_def)
  have run: "update_job_status fmt job_id status result error_message w
               = (Inr (), written fmt job_id status ?new w)"
    by (rule update_ok [OF assms(1,2) base])
  have fields: "map_of ?new ''jobId'' = Some job_id" "map_of ?new ''status'' = Some (JStr status)"
    "map_of ?new ''result'' = (if py_truthy result then Some result else None)"
    "map_of ?new ''errorMessage''
       = (case error_message of Some m \<Rightarrow> if m \<noteq> [] then Some (JStr m) else None | None \<Rightarrow> None)"
    by (auto simp: map_of_stamped map_of_assigned split: option.splits)
  show ?thesis
    using run fields
    by (simp add: stored_written json_dumps_def pending_record_def assign_fields_obj)
qed

theorem set_status_upsert_witness:
  "\<exists>w'. update_job_status no_fmt (JStr ''job-1'') ''processing'' JNull None idle_world = (Inr (), w')
      \<and> strings_db w' ''job_result:job-1''
          = Some (Encoded (JObj [(''jobId'', JStr ''job-1''), (''status'', JStr ''processing'')]), 86400)"
proof -
  have c: "redis_client idle_world" and f: "faults idle_world = []"
    and a: "strings_db idle_world (result_key no_fmt (JStr ''job-1'')) = None"
    by (simp_all add: idle_world_def)
  from set_status_upsert [OF c f a, of "''processing''" JNull None]
  show ?thesis
    by (auto simp: result_key_def py_str_def json_dumps_def ttl_24h_def stamped_def assigned_def
          is_terminal_def)
qed

section \<open>C1: repeating a status update\<close>

text \<open>
  Claim C1 says that \<^verbatim>\<open>update_job_status\<close> is idempotent for every status, result
  and error message. It is not for the statuses \<^verbatim>\<open>completed\<close> and \<^verbatim>\<open>failed\<close>:
  each such call writes \<^verbatim>\<open>completedAt\<close> anew from the clock, so the repeated call
  leaves a record with a later timestamp.

  Claim C1 as amended. Let a status update have gone through and be repeated with the
  same arguments. If the repeated call goes through, which it does when Redis does not
  fail, then for a status other than \<^verbatim>\<open>completed\<close> and \<^verbatim>\<open>failed\<close> it stores
  exactly the record of the first call, and for \<^verbatim>\<open>completed\<close> or \<^verbatim>\<open>failed\<close> it
  stores that record with \<^verbatim>\<open>completedAt\<close> overwritten by the clock reading of the
  repeated call, the reading after the one the first call stored. If the repeated call
  fails, the Result Store is left as the first call left it.
\<close>

theorem set_status_twice:
  assumes "update_job_status fmt job_id status result error_message w = (Inr u, w1)"
  shows "\<exists>r1.
           strings_db w1 (result_key fmt job_id) = Some (json_dumps (JObj r1), ttl_24h)
         \<and> (\<forall>u' w2. update_job_status fmt job_id status result error_message w1 = (Inr u', w2)
               \<longrightarrow> strings_db w2 (result_key fmt job_id)
                     = Some (json_dumps
                               (JObj (if status = ''completed'' \<or> status = ''failed''
                                      then AList.update ''completedAt'' (JStr (clock w1 0)) r1
                                      else r1)), ttl_24h))
         \<and> (\<forall>e w2. update_job_status fmt job_id status result error_message w1 = (Inl e, w2)
               \<longrightarrow> strings_db w2 = strings_db w1)
         \<and> (faults w1 = [] \<longrightarrow>
               (\<exists>w2. update_job_status fmt job_id status result error_message w1 = (Inr (), w2)))
         \<and> (status = ''completed'' \<or> status = ''failed'' \<longrightarrow>
               map_of r1 ''completedAt'' = Some (JStr (clock w 0))
               \<and> clock w1 0 = clock w (Suc 0))"
proof -
  let ?key = "result_key fmt job_id"
  from update_Inr [OF assms] obtain r0 where
    w1: "w1 = written fmt job_id status
                (stamped status (clock w 0) (assigned r0 status result error_message)) w"
    by blast
  define r1 where "r1 = stamped status (clock w 0) (assigned r0 status result error_message)"
  have s1: "strings_db w1 ?key = Some (Encoded (JObj r1), ttl_24h)"
    using w1 by (simp add: r1_def written_simps)
  have base: "existing_or_new (stored w1 ?key) job_id = Inr (JObj r1)"
    by (rule existing_or_new_record [OF s1])
  have again: "assigned r1 status result error_message = r1"
    by (simp add: r1_def assigned_again)
  have ok: "strings_db w2 ?key
              = Some (json_dumps
                        (JObj (if status = ''completed'' \<or> status = ''failed''
                               then AList.update ''completedAt'' (JStr (clock w1 0)) r1
                               else r1)), ttl_24h)"
    if "update_job_status fmt job_id status result error_message w1 = (Inr u', w2)" for u' w2
  proof -
    from update_Inr_record [OF that] base
    have "strings_db w2 ?key
            = Some (Encoded (JObj (stamped status (clock w1 0)
                                     (assigned r1 status result error_message))), ttl_24h)"
      by auto
    then show ?thesis
      by (simp add: again stamped_def is_terminal_def json_dumps_def)
  qed
  have bad: "strings_db w2 = strings_db w1"
    if "update_job_status fmt job_id status result error_message w1 = (Inl e, w2)" for e w2
    using that by (rule update_Inl)
  have c1: "redis_client w1"
    using update_Inr_client [OF assms] w1 by (simp add: written_simps)
  have succeeds: "\<exists>w2. update_job_status fmt job_id status result error_message w1 = (Inr (), w2)"
    if "faults w1 = []"
    using update_ok [OF c1 that base] by blast
  have stamp: "map_of r1 ''completedAt'' = Some (JStr (clock w 0)) \<and> clock w1 0 = clock w (Suc 0)"
    if "status = ''completed'' \<or> status = ''failed''"
    using that w1 by (auto simp: r1_def map_of_stamped is_terminal_def written_simps)
  have "strings_db w1 ?key = Some (json_dumps (JObj r1), ttl_24h)"
    using s1 by (simp add: json_dumps_def)
  with ok bad succeeds stamp show ?thesis
    by (intro exI [of _ r1]) blast
qed

theorem set_status_twice_witness:
  "\<exists>r1. strings_db
           (snd (update_job_status no_fmt (JStr ''job-2'') ''failed'' JNull
                   (Some ''model not found'') idle_world))
           ''job_result:job-2'' = Some (Encoded (JObj r1), 86400)
      \<and> map_of r1 ''completedAt'' = Some (JStr ''2024-01-16T10:00:00'')
      \<and> strings_db
           (snd (update_job_status no_fmt (JStr ''job-2'') ''failed'' JNull
                   (Some ''model not found'')
              (snd (update_job_status no_fmt (JStr ''job-2'') ''failed'' JNull
                      (Some ''model not found'') idle_world))))
           ''job_result:job-2''
         = Some (Encoded (JObj (AList.update ''completedAt'' (JStr ''2024-01-16T10:00:05'') r1)),
                 86400)"
proof -
  let ?w1 = "snd (update_job_status no_fmt (JStr ''job-2'') ''failed'' JNull
                   (Some ''model not found'') idle_world)"
  let ?w2 = "snd (update_job_status no_fmt (JStr ''job-2'') ''failed'' JNull
                   (Some ''model not found'') ?w1)"
  have run: "update_job_status no_fmt (JStr ''job-2'') ''failed'' JNull
               (Some ''model not found'') idle_world = (Inr (), ?w1)"
    by (simp add: update_eval)
  have f1: "faults ?w1 = []"
    by (simp add: update_eval)
  have ticks: "clock idle_world 0 = ''2024-01-16T10:00:00''"
    "clock idle_world (Suc 0) = ''2024-01-16T10:00:05''"
    by (simp_all add: idle_world_def two_ticks_def)
  from set_status_twice [OF run] obtain r1 where
    a: "strings_db ?w1 (result_key no_fmt (JStr ''job-2'')) = Some (json_dumps (JObj r1), ttl_24h)"
    and b: "\<forall>u' w2. update_job_status no_fmt (JStr ''job-2'') ''failed'' JNull
                       (Some ''model not found'') ?w1 = (Inr u', w2)
               \<longrightarrow> strings_db w2 (result_key no_fmt (JStr ''job-2''))
                     = Some (json_dumps
                               (JObj (if ''failed'' = ''completed'' \<or> ''failed'' = ''failed''
                                      then AList.update ''completedAt'' (JStr (clock ?w1 0)) r1
                                      else r1)), ttl_24h)"
    and d: "faults ?w1 = [] \<longrightarrow>
               (\<exists>w2. update_job_status no_fmt (JStr ''job-2'') ''failed'' JNull
                        (Some ''model not found'') ?w1 = (Inr (), w2))"
    and e: "''failed'' = ''completed'' \<or> ''failed'' = ''failed'' \<longrightarrow>
               map_of r1 ''completedAt'' = Some (JStr (clock idle_world 0))
               \<and> clock ?w1 0 = clock idle_world (Suc 0)"
    by blast
  from d f1 obtain w2 where second: "update_job_status no_fmt (JStr ''job-2'') ''failed'' JNull
                        (Some ''model not found'') ?w1 = (Inr (), w2)"
    by blast
  then have w2: "?w2 = w2" by simp
  from e have e': "map_of r1 ''completedAt'' = Some (JStr ''2024-01-16T10:00:00'')"
    "clock ?w1 0 = ''2024-01-16T10:00:05''"
    by (simp_all add: ticks)
  from b second have "strings_db w2 (result_key no_fmt (JStr ''job-2''))
       = Some (json_dumps (JObj (AList.update ''completedAt'' (JStr (clock ?w1 0)) r1)), ttl_24h)"
    by auto
  then have c: "strings_db ?w2 (result_key no_fmt (JStr ''job-2''))
       = Some (json_dumps (JObj (AList.update ''completedAt'' (JStr ''2024-01-16T10:00:05'') r1)),
               ttl_24h)"
    unfolding w2 e'(2) .
  have key: "result_key no_fmt (JStr ''job-2'') = ''job_result:job-2''"
    by (simp add: result_key_def py_str_def)
  from a c e'(1) show ?thesis
    unfolding key json_dumps_def ttl_24h_def
    by (intro exI [of _ r1]) simp
qed

theorem set_status_not_idempotent_counterexample:
  "strings_db
     (snd (update_job_status no_fmt (JStr ''job-1'') ''completed'' JNull None idle_world))
     ''job_result:job-1''
   = Some (Encoded (JObj [(''jobId'', JStr ''job-1''), (''status'', JStr ''completed''),
                          (''completedAt'', JStr ''2024-01-16T10:00:00'')]), 86400)
   \<and>
   strings_db
     (snd (update_job_status no_fmt (JStr ''job-1'') ''completed'' JNull None
        (snd (update_job_status no_fmt (JStr ''job-1'') ''completed'' JNull None idle_world))))
     ''job_result:job-1''
   = Some (Encoded (JObj [(''jobId'', JStr ''job-1''), (''status'', JStr ''completed''),
                          (''completedAt'', JStr ''2024-01-16T10:00:05'')]), 86400)
   \<and>
   strings_db
     (snd (update_job_status no_fmt (JStr ''job-1'') ''completed'' JNull None
        (snd (update_job_status no_fmt (JStr ''job-1'') ''completed'' JNull None idle_world))))
     ''job_result:job-1''
   \<noteq> strings_db
       (snd (update_job_status no_fmt (JStr ''job-1'') ''completed'' JNull None idle_world))
       ''job_result:job-1''"
  by (simp add: update_eval)

section \<open>C3: when result and errorMessage are present\<close>

text \<open>
  Claim C3 says that a Job Record has a result only when its status is
  \<^verbatim>\<open>completed\<close> and an error message only when its status is \<^verbatim>\<open>failed\<close>. The
  assignments do not look at the status, and no call removes a field: a record that was
  completed with a result and is then set to \<^verbatim>\<open>processing\<close> (the job id delivered a
  second time) keeps its result.

  Claim C3 as amended. After a status update that went through, the record has the status
  of the call; its \<^verbatim>\<open>result\<close> is the result argument when that is truthy and
  otherwise what the record had before (absent for a new record); its
  \<^verbatim>\<open>errorMessage\<close> is the error message argument when that is a non-empty string
  and otherwise what the record had before. Neither field depends on the status.
\<close>

theorem set_status_fields_follow_arguments:
  assumes "update_job_status fmt job_id status result error_message w = (Inr u, w')"
  shows "\<exists>r0 r. existing_or_new (stored w (result_key fmt job_id)) job_id = Inr (JObj r0)
           \<and> strings_db w' (result_key fmt job_id) = Some (json_dumps (JObj r), ttl_24h)
           \<and> map_of r ''status'' = Some (JStr status)
           \<and> map_of r ''result'' = (if py_truthy result then Some result else map_of r0 ''result'')
           \<and> map_of r ''errorMessage''
               = (case error_message of
                    Some m \<Rightarrow> if m \<noteq> [] then Some (JStr m) else map_of r0 ''errorMessage''
                  | None \<Rightarrow> map_of r0 ''errorMessage'')"
proof -
  from update_Inr_record [OF assms] obtain r0 where
    base: "existing_or_new (stored w (result_key fmt job_id)) job_id = Inr (JObj r0)"
    and rec: "strings_db w' (result_key fmt job_id)
               = Some (Encoded (JObj (stamped status (clock w 0)
                                        (assigned r0 status result error_message))), ttl_24h)"
    by blast
  show ?thesis
    using base rec
    by (auto simp: json_dumps_def map_of_stamped map_of_assigned split: option.splits)
qed

theorem set_status_fields_follow_arguments_witness:
  "\<exists>r. strings_db (snd (update_job_status no_fmt (JStr ''job-1'') ''completed''
                          (JObj [(''success'', JBool True)]) None idle_world)) ''job_result:job-1''
         = Some (Encoded (JObj r), 86400)
      \<and> map_of r ''status'' = Some (JStr ''completed'')
      \<and> map_of r ''result'' = Some (JObj [(''success'', JBool True)])
      \<and> map_of r ''errorMessage'' = None"
proof -
  have run: "update_job_status no_fmt (JStr ''job-1'') ''completed''
               (JObj [(''success'', JBool True)]) None idle_world
             = (Inr (), snd (update_job_status no_fmt (JStr ''job-1'') ''completed''
                  (JObj [(''success'', JBool True)]) None idle_world))"
    by (simp add: update_eval)
  have base: "existing_or_new (stored idle_world (result_key no_fmt (JStr ''job-1''))) (JStr ''job-1'')
                = Inr (JObj [(''jobId'', JStr ''job-1''), (''status'', JStr ''pending'')])"
    by (simp add: existing_or_new_def stored_def idle_world_def pending_record_def)
  from set_status_fields_follow_arguments [OF run] base
  show ?thesis
    by (auto simp: result_key_def py_str_def json_dumps_def ttl_24h_def)
qed

theorem result_outlives_completed_counterexample:
  "strings_db
     (snd (update_job_status no_fmt (JStr ''job-1'') ''processing'' JNull None
        (snd (update_job_status no_fmt (JStr ''job-1'') ''completed''
                (JObj [(''success'', JBool True)]) None idle_world))))
     ''job_result:job-1''
   = Some (Encoded (JObj [(''jobId'', JStr ''job-1''), (''status'', JStr ''processing''),
                          (''result'', JObj [(''success'', JBool True)]),
                          (''completedAt'', JStr ''2024-01-16T10:00:00'')]), 86400)"
  by (simp add: update_eval)

section \<open>C4: when completedAt is written\<close>

text \<open>
  Claim C4 says that \<^verbatim>\<open>completedAt\<close> is set exactly once per job id. Every update
  with status \<^verbatim>\<open>completed\<close> or \<^verbatim>\<open>failed\<close> writes it, also onto a record that
  already has one: a job completed at 10:00:00 and marked failed at 10:00:05 ends with
  the second time.

  Claim C4 as amended. An update whose status is \<^verbatim>\<open>completed\<close> or \<^verbatim>\<open>failed\<close>
  sets \<^verbatim>\<open>completedAt\<close> to the time of that call, overwriting an earlier value; an
  update with any other status never writes it and leaves it as the record had it before
  (absent for a new record).
\<close>

theorem set_status_completed_at:
  assumes "update_job_status fmt job_id status result error_message w = (Inr u, w')"
  shows "\<exists>r0 r. existing_or_new (stored w (result_key fmt job_id)) job_id = Inr (JObj r0)
           \<and> strings_db w' (result_key fmt job_id) = Some (json_dumps (JObj r), ttl_24h)
           \<and> map_of r ''completedAt''
               = (if status = ''completed'' \<or> status = ''failed'' then Some (JStr (clock w 0))
                  else map_of r0 ''completedAt'')"
proof -
  from update_Inr_record [OF assms] obtain r0 where
    base: "existing_or_new (stored w (result_key fmt job_id)) job_id = Inr (JObj r0)"
    and rec: "strings_db w' (result_key fmt job_id)
               = Some (Encoded (JObj (stamped status (clock w 0)
                                        (assigned r0 status result error_message))), ttl_24h)"
    by blast
  show ?thesis
    using base rec
    by (auto simp: json_dumps_def map_of_stamped map_of_assigned is_terminal_def)
qed

theorem set_status_completed_at_witness:
  "\<exists>r. strings_db (snd (update_job_status no_fmt (JStr ''job-1'') ''failed'' JNull
                          (Some ''model not found'') idle_world)) ''job_result:job-1''
         = Some (Encoded (JObj r), 86400)
      \<and> map_of r ''completedAt'' = Some (JStr ''2024-01-16T10:00:00'')"
proof -
  have run: "update_job_status no_fmt (JStr ''job-1'') ''failed'' JNull
               (Some ''model not found'') idle_world
             = (Inr (), snd (update_job_status no_fmt (JStr ''job-1'') ''failed'' JNull
                  (Some ''model not found'') idle_world))"
    by (simp add: update_eval)
  from set_status_completed_at [OF run]
  show ?thesis
    by (auto simp: result_key_def py_str_def json_dumps_def ttl_24h_def idle_world_def two_ticks_def)
qed

theorem completed_at_set_twice_counterexample:
  "strings_db
     (snd (update_job_status no_fmt (JStr ''job-1'') ''completed''
             (JObj [(''success'', JBool True)]) None idle_world))
     ''job_result:job-1''
   = Some (Encoded (JObj [(''jobId'', JStr ''job-1''), (''status'', JStr ''completed''),
                          (''result'', JObj [(''success'', JBool True)]),
                          (''completedAt'', JStr ''2024-01-16T10:00:00'')]), 86400)
   \<and>
   strings_db
     (snd (update_job_status no_fmt (JStr ''job-1'') ''failed'' JNull (Some ''late failure'')
        (snd (update_job_status no_fmt (JStr ''job-1'') ''completed''
                (JObj [(''success'', JBool True)]) None idle_world))))
     ''job_result:job-1''
   = Some (Encoded (JObj [(''jobId'', JStr ''job-1''), (''status'', JStr ''failed''),
                          (''result'', JObj [(''success'', JBool True)]),
                          (''completedAt'', JStr ''2024-01-16T10:00:05''),
                          (''errorMessage'', JStr ''late failure'')]), 86400)"
  by (simp add: update_eval)

section \<open>C7: a handler that raises\<close>

text \<open>
  Claim C7 says that whenever the handler of a message with a job id raises, the loop
  writes a \<^verbatim>\<open>failed\<close> record whose error message is \<^verbatim>\<open>str(e)\<close>. The record is
  written, but \<^verbatim>\<open>update_job_status\<close> stores the error message only when it is
  truthy: for an exception whose text is empty (\<^verbatim>\<open>raise Exception()\<close>,
  \<^verbatim>\<open>asyncio.TimeoutError()\<close>) the failed record has no \<^verbatim>\<open>errorMessage\<close>.

  Claim C7 as amended. Let a message with a truthy id be at the tail of the queue, Redis
  not fail, and the record under the job's key be absent or a dict. If the handler
  raises \<open>e\<close>, the iteration stores a record with status \<^verbatim>\<open>failed\<close>; its
  \<^verbatim>\<open>errorMessage\<close> is \<^verbatim>\<open>str(e)\<close> when that text is not empty, and is left as
  the record had it before when the text is empty. The loop does not stop or wait:
  \<open>running\<close> is unchanged, nothing is slept, the message is gone from the queue, and
  the loop goes on with its next iteration.
\<close>

theorem handler_error_marks_failed:
  assumes "redis_client w" and "faults w = []"
    and "lists_db w queue_name = rest @ [json_dumps (JObj m)]"
    and "map_of m ''id'' = Some job_id" and "py_truthy job_id"
    and "existing_or_new (stored w (result_key fmt job_id)) job_id = Inr (JObj r0)"
    and "processor_func (JObj m) = Inl e"
  shows "\<exists>r. strings_db (consume_step fmt queue_name processor_func w) (result_key fmt job_id)
               = Some (json_dumps (JObj r), ttl_24h)
           \<and> map_of r ''status'' = Some (JStr ''failed'')
           \<and> map_of r ''errorMessage''
               = (if str_exn e \<noteq> [] then Some (JStr (str_exn e)) else map_of r0 ''errorMessage'')
           \<and> running (consume_step fmt queue_name processor_func w) = running w
           \<and> slept (consume_step fmt queue_name processor_func w) = slept w
           \<and> lists_db (consume_step fmt queue_name processor_func w) queue_name = rest
           \<and> consume_queue fmt queue_name processor_func (Suc n) w
               = (if running w
                  then consume_queue fmt queue_name processor_func n
                         (consume_step fmt queue_name processor_func w)
                  else w)"
proof -
  have q: "lists_db w queue_name = rest @ [Encoded (JObj m)]"
    using assms(3) by (simp add: json_dumps_def)
  note step = consume_step_raises [where h = processor_func, OF assms(1,2) q assms(4-7)]
  have loop: "consume_queue fmt queue_name processor_func (Suc n) w
               = (if running w
                  then consume_queue fmt queue_name processor_func n
                         (consume_step fmt queue_name processor_func w)
                  else w)"
    by simp
  have rest: "\<exists>r. strings_db (consume_step fmt queue_name processor_func w) (result_key fmt job_id)
               = Some (json_dumps (JObj r), ttl_24h)
           \<and> map_of r ''status'' = Some (JStr ''failed'')
           \<and> map_of r ''errorMessage''
               = (if str_exn e \<noteq> [] then Some (JStr (str_exn e)) else map_of r0 ''errorMessage'')
           \<and> running (consume_step fmt queue_name processor_func w) = running w
           \<and> slept (consume_step fmt queue_name processor_func w) = slept w
           \<and> lists_db (consume_step fmt queue_name processor_func w) queue_name = rest"
    unfolding step
    by (auto simp: written_simps logger_error_simps taken_simps json_dumps_def
          map_of_stamped map_of_assigned AList.update_conv' is_terminal_def)
  from rest loop show ?thesis
    by blast
qed

theorem handler_error_marks_failed_witness:
  "strings_db
     (consume_step no_fmt ''analytics:prediction'' (\<lambda>job. Inl (Exception ''model not found''))
        (queued ''analytics:prediction'' [Encoded (JObj [(''id'', JStr ''job-2'')])] idle_world))
     ''job_result:job-2''
   = Some (Encoded (JObj [(''jobId'', JStr ''job-2''), (''status'', JStr ''failed''),
                          (''errorMessage'', JStr ''model not found''),
                          (''completedAt'', JStr ''2024-01-16T10:00:00'')]), 86400)
   \<and> (\<exists>r. strings_db
          (consume_step no_fmt ''analytics:prediction'' (\<lambda>job. Inl (Exception ''model not found''))
            (queued ''analytics:prediction'' [Encoded (JObj [(''id'', JStr ''job-2'')])] idle_world))
          ''job_result:job-2'' = Some (Encoded (JObj r), 86400)
        \<and> map_of r ''status'' = Some (JStr ''failed'')
        \<and> map_of r ''errorMessage'' = Some (JStr ''model not found''))"
proof -
  let ?w = "queued ''analytics:prediction'' [Encoded (JObj [(''id'', JStr ''job-2'')])] idle_world"
  have c: "redis_client ?w" and f: "faults ?w = []"
    and l: "lists_db ?w ''analytics:prediction''
              = [] @ [json_dumps (JObj [(''id'', JStr ''job-2'')])]"
    and i: "map_of [(''id'', JStr ''job-2'')] ''id'' = Some (JStr ''job-2'')"
    and t: "py_truthy (JStr ''job-2'')"
    and b: "existing_or_new (stored ?w (result_key no_fmt (JStr ''job-2''))) (JStr ''job-2'')
              = Inr (JObj [(''jobId'', JStr ''job-2''), (''status'', JStr ''pending'')])"
    by (simp_all add: queued_def idle_world_def json_dumps_def existing_or_new_def stored_def
          pending_record_def)
  have ex: "strings_db
     (consume_step no_fmt ''analytics:prediction'' (\<lambda>job. Inl (Exception ''model not found'')) ?w)
     ''job_result:job-2''
   = Some (Encoded (JObj [(''jobId'', JStr ''job-2''), (''status'', JStr ''failed''),
                          (''errorMessage'', JStr ''model not found''),
                          (''completedAt'', JStr ''2024-01-16T10:00:00'')]), 86400)"
    by (simp add: loop_eval update_eval)
  from handler_error_marks_failed [where processor_func = "\<lambda>job. Inl (Exception ''model not found'')" and n = 0, OF c f l i t b refl] ex
  show ?thesis
    by (auto simp: result_key_def py_str_def json_dumps_def ttl_24h_def)
qed

theorem empty_error_text_counterexample:
  "str_exn (Exception '''') = ''''
   \<and> strings_db
     (consume_step no_fmt ''analytics:prediction'' (\<lambda>job. Inl (Exception ''''))
        (queued ''analytics:prediction'' [Encoded (JObj [(''id'', JStr ''job-2'')])] idle_world))
     ''job_result:job-2''
   = Some (Encoded (JObj [(''jobId'', JStr ''job-2''), (''status'', JStr ''failed''),
                          (''completedAt'', JStr ''2024-01-16T10:00:00'')]), 86400)"
  by (simp add: loop_eval update_eval)

section \<open>C2: a payload that does not decode\<close>

text \<open>
  Claim C2 says that for a malformed payload the loop logs the failure, writes a
  \<^verbatim>\<open>failed\<close> Job Record carrying the decode failure, and goes on consuming. The
  first and the last hold. No record is written: \<^verbatim>\<open>json.loads\<close> raises inside
  \<^verbatim>\<open>consume_message\<close>, before any job id is known, and the exception goes to the
  outer handler of the loop, which only logs and sleeps.

  Claim C2 as amended. When the payload at the tail of the queue is malformed (and Redis
  does not fail), the iteration removes it from the queue, logs the decode failure twice
  (in \<^verbatim>\<open>consume_message\<close> and in the loop), sleeps 5 seconds and changes nothing
  else: the Result Store is untouched, so no Job Record is written, and the loop goes on
  with its next iteration on the same queue.
\<close>

theorem malformed_payload_is_dropped:
  assumes "redis_client w" and "faults w = []"
    and "lists_db w queue_name = rest @ [Malformed raw diag]"
  shows "consume_step fmt queue_name processor_func w
           = w\<lparr>lists_db := (lists_db w)(queue_name := rest),
               logger := logger w
                 @ [(ERROR, ''Error consuming message from queue '' @ queue_name @ '': '' @ diag),
                    (ERROR, ''Error consuming from queue '' @ queue_name @ '': '' @ diag)],
               slept := slept w + 5\<rparr>
       \<and> strings_db (consume_step fmt queue_name processor_func w) = strings_db w
       \<and> running (consume_step fmt queue_name processor_func w) = running w
       \<and> consume_queue fmt queue_name processor_func (Suc n) w
           = (if running w
              then consume_queue fmt queue_name processor_func n
                     (consume_step fmt queue_name processor_func w)
              else w)"
proof -
  have step: "consume_step fmt queue_name processor_func w
           = w\<lparr>lists_db := (lists_db w)(queue_name := rest),
               logger := logger w
                 @ [(ERROR, ''Error consuming message from queue '' @ queue_name @ '': '' @ diag),
                    (ERROR, ''Error consuming from queue '' @ queue_name @ '': '' @ diag)],
               slept := slept w + 5\<rparr>"
    unfolding consume_step_def consume_once_def consume_message_malformed [OF assms, of 5]
    by (simp add: retry_later_def asyncio_sleep_def logger_error_def)
  have loop: "consume_queue fmt queue_name processor_func (Suc n) w
           = (if running w
              then consume_queue fmt queue_name processor_func n
                     (consume_step fmt queue_name processor_func w)
              else w)"
    by simp
  have frame: "strings_db (consume_step fmt queue_name processor_func w) = strings_db w"
    "running (consume_step fmt queue_name processor_func w) = running w"
    unfolding step by simp_all
  from step loop frame show ?thesis
    by blast
qed

theorem malformed_payload_is_dropped_witness:
  "consume_step no_fmt ''analytics:prediction'' (\<lambda>job. Inr (JObj [(''success'', JBool True)]))
     (queued ''analytics:prediction''
        [Malformed ''not json'' ''Expecting value: line 1 column 1 (char 0)''] idle_world)
   = idle_world
       \<lparr>logger :=
          [(ERROR, ''Error consuming message from queue analytics:prediction: Expecting value: line 1 column 1 (char 0)''),
           (ERROR, ''Error consuming from queue analytics:prediction: Expecting value: line 1 column 1 (char 0)'')],
        slept := 5\<rparr>"
proof -
  let ?w = "queued ''analytics:prediction''
        [Malformed ''not json'' ''Expecting value: line 1 column 1 (char 0)''] idle_world"
  have c: "redis_client ?w" and f: "faults ?w = []"
    and l: "lists_db ?w ''analytics:prediction''
              = [] @ [Malformed ''not json'' ''Expecting value: line 1 column 1 (char 0)'']"
    by (simp_all add: queued_def idle_world_def)
  from malformed_payload_is_dropped
         [where processor_func = "\<lambda>job. Inr (JObj [(''success'', JBool True)])" and n = 0
            and fmt = no_fmt, OF c f l]
  show ?thesis
    by (simp add: queued_def idle_world_def fun_eq_iff)
qed

theorem malformed_payload_no_record_counterexample:
  "strings_db
     (consume_step no_fmt ''analytics:prediction'' (\<lambda>job. Inr (JObj [(''success'', JBool True)]))
        (queued ''analytics:prediction''
           [Malformed ''not json'' ''Expecting value: line 1 column 1 (char 0)''] idle_world))
   = Map.empty"
  by (simp add: loop_eval update_eval)

section \<open>C5: order of consumption\<close>




section \<open>C8: queues of the processor, notification channel\<close>

text \<open>
  Claim C8. \<^verbatim>\<open>start\<close> starts exactly one consumption loop for each of the five
  kinds \<^verbatim>\<open>data_processing\<close>, \<^verbatim>\<open>model_training\<close>, \<^verbatim>\<open>prediction\<close>,
  \<^verbatim>\<open>visualization\<close> and \<^verbatim>\<open>statistical_analysis\<close>, on the queue
  \<^verbatim>\<open>analytics:<kind>\<close>: the queue names of its tasks are these five, each once;
  when the task of a kind is given \<open>n\<close> turns and \<^verbatim>\<open>stop\<close> is called,
  \<^verbatim>\<open>start\<close> returns the world in which the loop on \<^verbatim>\<open>analytics:<kind>\<close> has
  run its first \<open>n\<close> iterations with the handler of that task; there is no sixth
  task; and whatever the schedule, \<^verbatim>\<open>start\<close> leaves every queue with another
  name as it was. Every \<^verbatim>\<open>publish_message\<close> that returns has put the serialized
  message on the queue and has published the same text on the channel
  \<^verbatim>\<open><queue_name>:notification\<close>.
\<close>

theorem one_loop_per_kind_and_broadcast:
  "map fst start_tasks = map (\<lambda>kind. ''analytics:'' @ kind) recognized_kinds
   \<and> distinct (map fst start_tasks)
   \<and> (i < length recognized_kinds \<longrightarrow>
        start fmt methods (replicate n (Turn i) @ [StopCalled]) w
          = Some ((stop (consume_queue fmt (''analytics:'' @ recognized_kinds ! i)
                           (methods (snd (start_tasks ! i))) n
                           (logger_info ''Job processor started'' (w\<lparr>running := True\<rparr>))))
                  \<lparr>running := False\<rparr>))
   \<and> (\<not> j < length recognized_kinds \<longrightarrow>
        start fmt methods (replicate n (Turn j) @ [StopCalled]) w
          = Some ((stop (logger_info ''Job processor started'' (w\<lparr>running := True\<rparr>)))
                  \<lparr>running := False\<rparr>))
   \<and> (start fmt methods schedule w = Some w'
        \<and> queue \<notin> (\<lambda>kind. ''analytics:'' @ kind) ` set recognized_kinds \<longrightarrow>
        lists_db w' queue = lists_db w queue)
   \<and> (publish_message queue_name message v = (Inr u, v') \<longrightarrow>
        lists_db v' queue_name = json_dumps message # lists_db v queue_name
        \<and> published v' = published v @ [(queue_name @ '':notification'', json_dumps message)])"
proof -
  have names: "map fst start_tasks = map (\<lambda>kind. ''analytics:'' @ kind) recognized_kinds"
    by (simp add: start_tasks_def recognized_kinds_def)
  have len: "length start_tasks = length recognized_kinds"
    by (simp add: start_tasks_def recognized_kinds_def)
  have dist: "distinct (map fst start_tasks)"
    by (simp add: start_tasks_def)
  have queues: "fst ` set start_tasks = (\<lambda>kind. ''analytics:'' @ kind) ` set recognized_kinds"
    using arg_cong [OF names, of set] by simp
  let ?w1 = "logger_info ''Job processor started'' (w\<lparr>running := True\<rparr>)"
  have one: "start fmt methods (replicate n (Turn i) @ [StopCalled]) w
          = Some ((stop (consume_queue fmt (''analytics:'' @ recognized_kinds ! i)
                           (methods (snd (start_tasks ! i))) n ?w1))\<lparr>running := False\<rparr>)"
    if i: "i < length recognized_kinds"
  proof -
    have "fst (start_tasks ! i) = map fst start_tasks ! i"
      using i len by simp
    then have q: "fst (start_tasks ! i) = ''analytics:'' @ recognized_kinds ! i"
      using i by (simp add: names)
    have il: "i < length start_tasks" using i len by simp
    show ?thesis
      unfolding start_def Let_def gather_turns [OF il] q
      by (simp add: stop_def logger_info_def)
  qed
  have none: "start fmt methods (replicate n (Turn j) @ [StopCalled]) w
          = Some ((stop ?w1)\<lparr>running := False\<rparr>)"
    if j: "\<not> j < length recognized_kinds"
  proof -
    have jl: "\<not> j < length start_tasks" using j len by simp
    show ?thesis
      unfolding start_def Let_def gather_no_task [OF jl]
      by (simp add: stop_def logger_info_def)
  qed
  have others: "lists_db w' queue = lists_db w queue"
    if st: "start fmt methods schedule w = Some w'
        \<and> queue \<notin> (\<lambda>kind. ''analytics:'' @ kind) ` set recognized_kinds"
  proof -
    have nq: "queue \<notin> fst ` set start_tasks"
      using st queues by simp
    have "w' = (gather fmt methods start_tasks schedule ?w1)\<lparr>running := False\<rparr>"
      using st by (auto simp: start_def Let_def split: if_splits)
    then show ?thesis
      using gather_other_queue [OF nq, of fmt methods schedule ?w1]
      by (simp add: logger_info_def)
  qed
  have pub: "lists_db v' queue_name = json_dumps message # lists_db v queue_name
        \<and> published v' = published v @ [(queue_name @ '':notification'', json_dumps message)]"
    if "publish_message queue_name message v = (Inr u, v')"
    using publish_message_Inr [OF that] by (simp add: json_dumps_def)
  from names dist one none others pub show ?thesis
    by blast
qed

theorem one_loop_per_kind_and_broadcast_witness:
  "(\<exists>w'. start no_fmt (\<lambda>p job. Inr (JObj [(''success'', JBool True)])) [Turn 2, StopCalled]
            (queued ''analytics:prediction'' [Encoded (JObj [(''id'', JStr ''job-2'')])] idle_world)
          = Some w'
        \<and> lists_db w' ''analytics:prediction'' = []
        \<and> strings_db w' ''job_result:job-2'' \<noteq> None
        \<and> lists_db w' ''analytics:unknown'' = [])
   \<and> (\<exists>w'. start no_fmt (\<lambda>p job. Inr (JObj [(''success'', JBool True)])) [Turn 7, StopCalled]
            (queued ''analytics:prediction'' [Encoded (JObj [(''id'', JStr ''job-2'')])] idle_world)
          = Some w'
        \<and> lists_db w' ''analytics:prediction'' = [Encoded (JObj [(''id'', JStr ''job-2'')])])
   \<and> published (snd (publish_message ''analytics:prediction'' (JObj [(''id'', JStr ''job-2'')])
                        idle_world))
       = [(''analytics:prediction:notification'', Encoded (JObj [(''id'', JStr ''job-2'')]))]
   \<and> map fst start_tasks
       = [''analytics:data_processing'', ''analytics:model_training'', ''analytics:prediction'',
          ''analytics:visualization'', ''analytics:statistical_analysis'']"
proof -
  let ?m = "\<lambda>(p::processor) (job::json). (Inr (JObj [(''success'', JBool True)]) :: exn + json)"
  let ?W = "queued ''analytics:prediction'' [Encoded (JObj [(''id'', JStr ''job-2'')])] idle_world"
  have i: "(2::nat) < length recognized_kinds" and j: "\<not> (7::nat) < length recognized_kinds"
    by (simp_all add: recognized_kinds_def)
  have other: "''analytics:unknown'' \<notin> (\<lambda>kind. ''analytics:'' @ kind) ` set recognized_kinds"
    by (simp add: recognized_kinds_def)
  have run: "publish_message ''analytics:prediction'' (JObj [(''id'', JStr ''job-2'')]) idle_world
             = (Inr (), snd (publish_message ''analytics:prediction''
                               (JObj [(''id'', JStr ''job-2'')]) idle_world))"
    by (simp add: loop_eval update_eval Let_def)
  note inst = one_loop_per_kind_and_broadcast
    [where i = 2 and j = 7 and n = "Suc 0" and fmt = no_fmt and methods = ?m and w = ?W
       and queue = "''analytics:unknown''" and schedule = "[Turn 2, StopCalled]"
       and queue_name = "''analytics:prediction''" and message = "JObj [(''id'', JStr ''job-2'')]"
       and v = idle_world and u = "()"]
  from inst i have s2: "start no_fmt ?m [Turn 2, StopCalled] ?W
      = Some ((stop (consume_queue no_fmt (''analytics:'' @ recognized_kinds ! 2)
                       (?m (snd (start_tasks ! 2))) (Suc 0)
                       (logger_info ''Job processor started'' (?W\<lparr>running := True\<rparr>))))
              \<lparr>running := False\<rparr>)"
    by simp
  from inst j have s7: "start no_fmt ?m [Turn 7, StopCalled] ?W
      = Some ((stop (logger_info ''Job processor started'' (?W\<lparr>running := True\<rparr>)))
              \<lparr>running := False\<rparr>)"
    by simp
  from inst s2 other have u: "lists_db
       ((stop (consume_queue no_fmt (''analytics:'' @ recognized_kinds ! 2)
                       (?m (snd (start_tasks ! 2))) (Suc 0)
                       (logger_info ''Job processor started'' (?W\<lparr>running := True\<rparr>))))
              \<lparr>running := False\<rparr>) ''analytics:unknown'' = lists_db ?W ''analytics:unknown''"
    by blast
  from inst run have p: "published (snd (publish_message ''analytics:prediction''
                           (JObj [(''id'', JStr ''job-2'')]) idle_world))
       = published idle_world @ [(''analytics:prediction'' @ '':notification'',
                                  json_dumps (JObj [(''id'', JStr ''job-2'')]))]"
    by blast
  have a: "lists_db ((stop (consume_queue no_fmt (''analytics:'' @ recognized_kinds ! 2)
                       (?m (snd (start_tasks ! 2))) (Suc 0)
                       (logger_info ''Job processor started'' (?W\<lparr>running := True\<rparr>))))
              \<lparr>running := False\<rparr>) ''analytics:prediction'' = []"
    "strings_db ((stop (consume_queue no_fmt (''analytics:'' @ recognized_kinds ! 2)
                       (?m (snd (start_tasks ! 2))) (Suc 0)
                       (logger_info ''Job processor started'' (?W\<lparr>running := True\<rparr>))))
              \<lparr>running := False\<rparr>) ''job_result:job-2'' \<noteq> None"
    by (simp_all add: recognized_kinds_def stop_def loop_eval update_eval)
  have b: "lists_db ((stop (logger_info ''Job processor started'' (?W\<lparr>running := True\<rparr>)))
              \<lparr>running := False\<rparr>) ''analytics:prediction''
             = [Encoded (JObj [(''id'', JStr ''job-2'')])]"
    by (simp add: stop_def logger_info_def queued_def)
  have names: "map fst start_tasks
       = [''analytics:data_processing'', ''analytics:model_training'', ''analytics:prediction'',
          ''analytics:visualization'', ''analytics:statistical_analysis'']"
    using inst by (simp add: recognized_kinds_def)
  have u': "lists_db ?W ''analytics:unknown'' = []"
    by (simp add: queued_def idle_world_def)
  have p': "published idle_world = []"
    by (simp add: idle_world_def)
  show ?thesis
    using s2 s7 u a b p names
    by (simp add: u' p' json_dumps_def)
qed

section \<open>C9: a message without a job id\<close>

text \<open>
  Claim C9 says that every message taken from the queue that lacks a job id is
  discarded silently. That holds for a dict and for a falsy message. A truthy message
  that is not a dict, as the JSON list \<^verbatim>\<open>[1, 2]\<close>, has no \<^verbatim>\<open>get\<close>:
  \<^verbatim>\<open>message.get("id")\<close> raises \<^verbatim>\<open>AttributeError\<close>, which the loop catches,
  logs as an error and answers with a sleep of 5 seconds.

  Claim C9 as amended. Let the message taken from the queue be no dict with a truthy id
  (and Redis not fail). If it is a dict, or falsy, the iteration only removes it and logs
  that it was consumed. If it is truthy and not a dict, the iteration also logs the
  \<^verbatim>\<open>AttributeError\<close> and sleeps 5 seconds. In both cases the Result Store is
  unchanged, so no status update is written, the outcome does not depend on the handler,
  so it is not called, no exception leaves the iteration and \<open>running\<close> is unchanged,
  so the loop proceeds to its next iteration.
\<close>

theorem message_without_id_is_skipped:
  assumes "redis_client w" and "faults w = []"
    and "lists_db w queue_name = rest @ [json_dumps v]"
    and "\<forall>m. v = JObj m \<longrightarrow>
           map_of m ''id'' = None \<or> (\<exists>x. map_of m ''id'' = Some x \<and> \<not> py_truthy x)"
  shows "consume_step fmt queue_name processor_func w
           = (if py_truthy v \<and> \<not> is_dict v
              then retry_later queue_name
                     (AttributeError (quoted (type_name v) @ '' object has no attribute ''
                                        @ quoted ''get''))
                     (taken queue_name rest w)
              else taken queue_name rest w)
       \<and> strings_db (consume_step fmt queue_name processor_func w) = strings_db w
       \<and> running (consume_step fmt queue_name processor_func w) = running w
       \<and> lists_db (consume_step fmt queue_name processor_func w) queue_name = rest
       \<and> slept (consume_step fmt queue_name processor_func w)
           = (if py_truthy v \<and> \<not> is_dict v then slept w + 5 else slept w)
       \<and> logger (consume_step fmt queue_name processor_func w)
           = logger w @ [(INFO, ''Message consumed from queue '' @ queue_name)]
               @ (if py_truthy v \<and> \<not> is_dict v
                  then [(ERROR, ''Error consuming from queue '' @ queue_name @ '': ''
                                  @ quoted (type_name v) @ '' object has no attribute ''
                                  @ quoted ''get'')]
                  else [])"
proof -
  have q: "lists_db w queue_name = rest @ [Encoded v]"
    using assms(3) by (simp add: json_dumps_def)
  have nk: "job_key fmt (Encoded v) = None"
    using assms(4) by (cases v) (auto simp: job_key_def)
  note step = consume_step_no_job [OF assms(1,2) q nk, of processor_func]
  show ?thesis
    unfolding step
    by (simp add: retry_later_def asyncio_sleep_def logger_error_def taken_def)
qed

theorem message_without_id_is_skipped_witness:
  "consume_step no_fmt ''analytics:visualization'' (\<lambda>job. Inl (Exception ''never called''))
     (queued ''analytics:visualization''
        [Encoded (JObj [(''datasetId'', JStr ''d1''), (''id'', JStr '''')])] idle_world)
   = idle_world\<lparr>logger := [(INFO, ''Message consumed from queue analytics:visualization'')]\<rparr>
   \<and>
   consume_step no_fmt ''analytics:visualization'' (\<lambda>job. Inl (Exception ''never called''))
     (queued ''analytics:visualization'' [Encoded (JStr ''ping'')] idle_world)
   = idle_world
       \<lparr>logger := [(INFO, ''Message consumed from queue analytics:visualization''),
                   (ERROR, ''Error consuming from queue analytics:visualization: ''
                             @ quoted ''str'' @ '' object has no attribute '' @ quoted ''get'')],
        slept := 5\<rparr>"
proof -
  let ?d = "JObj [(''datasetId'', JStr ''d1''), (''id'', JStr '''')]"
  let ?w = "queued ''analytics:visualization'' [Encoded ?d] idle_world"
  let ?v = "queued ''analytics:visualization'' [Encoded (JStr ''ping'')] idle_world"
  have c: "redis_client ?w" and f: "faults ?w = []"
    and l: "lists_db ?w ''analytics:visualization'' = [] @ [json_dumps ?d]"
    and i: "\<forall>m. ?d = JObj m \<longrightarrow>
              map_of m ''id'' = None \<or> (\<exists>x. map_of m ''id'' = Some x \<and> \<not> py_truthy x)"
    by (simp_all add: queued_def idle_world_def json_dumps_def)
  have c': "redis_client ?v" and f': "faults ?v = []"
    and l': "lists_db ?v ''analytics:visualization'' = [] @ [json_dumps (JStr ''ping'')]"
    and i': "\<forall>m. JStr ''ping'' = JObj m \<longrightarrow>
              map_of m ''id'' = None \<or> (\<exists>x. map_of m ''id'' = Some x \<and> \<not> py_truthy x)"
    by (simp_all add: queued_def idle_world_def json_dumps_def)
  have first: "consume_step no_fmt ''analytics:visualization''
                 (\<lambda>job. Inl (Exception ''never called'')) ?w
     = idle_world\<lparr>logger := [(INFO, ''Message consumed from queue analytics:visualization'')]\<rparr>"
    using message_without_id_is_skipped
         [where processor_func = "\<lambda>job. Inl (Exception ''never called'')"
            and fmt = no_fmt, OF c f l i]
    by (simp add: taken_def queued_def idle_world_def fun_eq_iff)
  have second: "consume_step no_fmt ''analytics:visualization''
                 (\<lambda>job. Inl (Exception ''never called'')) ?v
     = idle_world
       \<lparr>logger := [(INFO, ''Message consumed from queue analytics:visualization''),
                   (ERROR, ''Error consuming from queue analytics:visualization: ''
                             @ quoted ''str'' @ '' object has no attribute '' @ quoted ''get'')],
        slept := 5\<rparr>"
    using message_without_id_is_skipped
         [where processor_func = "\<lambda>job. Inl (Exception ''never called'')"
            and fmt = no_fmt, OF c' f' l' i']
    by (simp add: taken_def queued_def idle_world_def fun_eq_iff retry_later_def
          asyncio_sleep_def logger_error_def)
  from first second show ?thesis
    by blast
qed

theorem list_message_is_not_silent_counterexample:
  "consume_step no_fmt ''analytics:visualization'' (\<lambda>job. Inr (JObj [(''success'', JBool True)]))
     (queued ''analytics:visualization'' [Encoded (JArr [JInt 1, JInt 2])] idle_world)
   = idle_world
       \<lparr>logger := [(INFO, ''Message consumed from queue analytics:visualization''),
                   (ERROR, ''Error consuming from queue analytics:visualization: ''
                             @ quoted ''list'' @ '' object has no attribute '' @ quoted ''get'')],
        slept := 5\<rparr>"
  by (simp add: loop_eval update_eval fun_eq_iff)

section \<open>C10: empty result and empty error message\<close>

text \<open>
  Claim C10 says that a call with an empty result leaves a record without result, so
  that a handler returning an empty dict yields a completed record without result. The
  call does not write the field, but it does not remove it either: when the job id was
  delivered before and its record has a result, the handler returning an empty dict
  leaves a completed record with that earlier result.

  Claim C10 as amended. \<^verbatim>\<open>update_job_status\<close> tests its optional arguments for
  truthiness. A call whose result is the empty dict does not write \<^verbatim>\<open>result\<close>, and
  a call whose error message is the empty string does not write \<^verbatim>\<open>errorMessage\<close>:
  each field stays as the record had it before, absent for a new record. So a handler
  returning an empty dict yields a completed record whose result is the one the record
  had before the delivery; for a job id with no record it is the record with job id,
  status and \<^verbatim>\<open>completedAt\<close> only.
\<close>

theorem empty_result_and_error_are_not_stored:
  "(update_job_status fmt job_id status result error_message w = (Inr u, w') \<longrightarrow>
      (\<exists>r0 r. existing_or_new (stored w (result_key fmt job_id)) job_id = Inr (JObj r0)
         \<and> strings_db w' (result_key fmt job_id) = Some (json_dumps (JObj r), ttl_24h)
         \<and> (result = JObj [] \<longrightarrow> map_of r ''result'' = map_of r0 ''result'')
         \<and> (error_message = Some [] \<longrightarrow> map_of r ''errorMessage'' = map_of r0 ''errorMessage'')
         \<and> (strings_db w (result_key fmt job_id) = None \<longrightarrow>
               map_of r0 ''result'' = None \<and> map_of r0 ''errorMessage'' = None)))
   \<and> (redis_client v \<and> faults v = []
        \<and> lists_db v queue_name = rest @ [json_dumps (JObj m)]
        \<and> map_of m ''id'' = Some job_id \<and> py_truthy job_id
        \<and> existing_or_new (stored v (result_key fmt job_id)) job_id = Inr (JObj before)
        \<and> processor_func (JObj m) = Inr (JObj []) \<longrightarrow>
      (\<exists>r. strings_db (consume_step fmt queue_name processor_func v) (result_key fmt job_id)
              = Some (json_dumps (JObj r), ttl_24h)
          \<and> map_of r ''status'' = Some (JStr ''completed'')
          \<and> map_of r ''result'' = map_of before ''result''
          \<and> map_of r ''completedAt'' = Some (JStr (clock v 0))
          \<and> (strings_db v (result_key fmt job_id) = None \<longrightarrow>
                r = [(''jobId'', job_id), (''status'', JStr ''completed''),
                     (''completedAt'', JStr (clock v 0))])))"
proof (intro conjI impI)
  assume run: "update_job_status fmt job_id status result error_message w = (Inr u, w')"
  from update_Inr_record [OF run] obtain r0 where
    base: "existing_or_new (stored w (result_key fmt job_id)) job_id = Inr (JObj r0)"
    and rec: "strings_db w' (result_key fmt job_id)
               = Some (Encoded (JObj (stamped status (clock w 0)
                                        (assigned r0 status result error_message))), ttl_24h)"
    by blast
  have fresh: "strings_db w (result_key fmt job_id) = None \<longrightarrow>
                 map_of r0 ''result'' = None \<and> map_of r0 ''errorMessage'' = None"
    using base by (auto simp: existing_or_new_absent pending_record_def)
  show "\<exists>r0 r. existing_or_new (stored w (result_key fmt job_id)) job_id = Inr (JObj r0)
         \<and> strings_db w' (result_key fmt job_id) = Some (json_dumps (JObj r), ttl_24h)
         \<and> (result = JObj [] \<longrightarrow> map_of r ''result'' = map_of r0 ''result'')
         \<and> (error_message = Some [] \<longrightarrow> map_of r ''errorMessage'' = map_of r0 ''errorMessage'')
         \<and> (strings_db w (result_key fmt job_id) = None \<longrightarrow>
               map_of r0 ''result'' = None \<and> map_of r0 ''errorMessage'' = None)"
    using base rec fresh
    by (auto simp: json_dumps_def map_of_stamped map_of_assigned)
next
  assume a: "redis_client v \<and> faults v = []
        \<and> lists_db v queue_name = rest @ [json_dumps (JObj m)]
        \<and> map_of m ''id'' = Some job_id \<and> py_truthy job_id
        \<and> existing_or_new (stored v (result_key fmt job_id)) job_id = Inr (JObj before)
        \<and> processor_func (JObj m) = Inr (JObj [])"
  then have q: "lists_db v queue_name = rest @ [Encoded (JObj m)]"
    by (simp add: json_dumps_def)
  have c: "redis_client v" and f: "faults v = []" and i: "map_of m ''id'' = Some job_id"
    and t: "py_truthy job_id" and h: "processor_func (JObj m) = Inr (JObj [])"
    and b: "existing_or_new (stored v (result_key fmt job_id)) job_id = Inr (JObj before)"
    using a by simp_all
  note step = consume_step_returns [where h = processor_func, OF c f q i t b h]
  let ?r = "stamped ''completed'' (clock v 0)
              (assigned (AList.update ''status'' (JStr ''processing'') before)
                 ''completed'' (JObj []) None)"
  have rec: "strings_db (consume_step fmt queue_name processor_func v) (result_key fmt job_id)
              = Some (json_dumps (JObj ?r), ttl_24h)"
    unfolding step by (simp add: written_simps json_dumps_def)
  have fields: "map_of ?r ''status'' = Some (JStr ''completed'')"
    "map_of ?r ''result'' = map_of before ''result''"
    "map_of ?r ''completedAt'' = Some (JStr (clock v 0))"
    by (simp_all add: map_of_stamped map_of_assigned AList.update_conv' is_terminal_def)
  have new: "strings_db v (result_key fmt job_id) = None \<longrightarrow>
                ?r = [(''jobId'', job_id), (''status'', JStr ''completed''),
                      (''completedAt'', JStr (clock v 0))]"
  proof
    assume "strings_db v (result_key fmt job_id) = None"
    then have "before = [(''jobId'', job_id), (''status'', JStr ''pending'')]"
      using b by (simp add: existing_or_new_absent pending_record_def)
    then show "?r = [(''jobId'', job_id), (''status'', JStr ''completed''),
                      (''completedAt'', JStr (clock v 0))]"
      by (simp add: stamped_def assigned_def is_terminal_def)
  qed
  from rec fields new
  show "\<exists>r. strings_db (consume_step fmt queue_name processor_func v) (result_key fmt job_id)
              = Some (json_dumps (JObj r), ttl_24h)
          \<and> map_of r ''status'' = Some (JStr ''completed'')
          \<and> map_of r ''result'' = map_of before ''result''
          \<and> map_of r ''completedAt'' = Some (JStr (clock v 0))
          \<and> (strings_db v (result_key fmt job_id) = None \<longrightarrow>
                r = [(''jobId'', job_id), (''status'', JStr ''completed''),
                     (''completedAt'', JStr (clock v 0))])"
    by (intro exI [of _ ?r] conjI)
qed

theorem empty_result_and_error_are_not_stored_witness:
  "strings_db (snd (update_job_status no_fmt (JStr ''job-1'') ''failed'' (JObj []) (Some '''')
                      idle_world)) ''job_result:job-1''
     = Some (Encoded (JObj [(''jobId'', JStr ''job-1''), (''status'', JStr ''failed''),
                            (''completedAt'', JStr ''2024-01-16T10:00:00'')]), 86400)
   \<and> strings_db
       (consume_step no_fmt ''analytics:data_processing'' (\<lambda>job. Inr (JObj []))
          (queued ''analytics:data_processing'' [Encoded (JObj [(''id'', JStr ''job-1'')])]
             idle_world))
       ''job_result:job-1''
     = Some (Encoded (JObj [(''jobId'', JStr ''job-1''), (''status'', JStr ''completed''),
                            (''completedAt'', JStr ''2024-01-16T10:00:00'')]), 86400)"
proof -
  let ?v = "queued ''analytics:data_processing'' [Encoded (JObj [(''id'', JStr ''job-1'')])]
              idle_world"
  have run: "update_job_status no_fmt (JStr ''job-1'') ''failed'' (JObj []) (Some '''') idle_world
             = (Inr (), snd (update_job_status no_fmt (JStr ''job-1'') ''failed'' (JObj [])
                               (Some '''') idle_world))"
    by (simp add: update_eval)
  have pre: "redis_client ?v \<and> faults ?v = []
        \<and> lists_db ?v ''analytics:data_processing''
            = [] @ [json_dumps (JObj [(''id'', JStr ''job-1'')])]
        \<and> map_of [(''id'', JStr ''job-1'')] ''id'' = Some (JStr ''job-1'')
        \<and> py_truthy (JStr ''job-1'')
        \<and> existing_or_new (stored ?v (result_key no_fmt (JStr ''job-1''))) (JStr ''job-1'')
            = Inr (JObj [(''jobId'', JStr ''job-1''), (''status'', JStr ''pending'')])"
    by (simp add: queued_def idle_world_def json_dumps_def existing_or_new_def stored_def
          pending_record_def)
  have none: "strings_db ?v (result_key no_fmt (JStr ''job-1'')) = None"
    by (simp add: queued_def idle_world_def)
  have first: "strings_db (snd (update_job_status no_fmt (JStr ''job-1'') ''failed'' (JObj [])
                 (Some '''') idle_world)) ''job_result:job-1''
     = Some (Encoded (JObj [(''jobId'', JStr ''job-1''), (''status'', JStr ''failed''),
                            (''completedAt'', JStr ''2024-01-16T10:00:00'')]), 86400)"
    by (simp add: update_eval)
  from empty_result_and_error_are_not_stored
         [where processor_func = "\<lambda>job. Inr (JObj [])" and v = ?v and fmt = no_fmt
            and job_id = "JStr ''job-1''" and status = "''failed''" and result = "JObj []"
            and error_message = "Some ''''" and w = idle_world and u = "()"
            and queue_name = "''analytics:data_processing''" and rest = "[]"
            and m = "[(''id'', JStr ''job-1'')]"
            and before = "[(''jobId'', JStr ''job-1''), (''status'', JStr ''pending'')]"]
    run pre none first
  show ?thesis
    by (auto simp: result_key_def py_str_def json_dumps_def ttl_24h_def queued_def idle_world_def
          two_ticks_def)
qed

theorem stale_result_counterexample:
  "strings_db
     (consume_step no_fmt ''analytics:data_processing'' (\<lambda>job. Inr (JObj []))
        (queued ''analytics:data_processing'' [Encoded (JObj [(''id'', JStr ''job-1'')])]
           (snd (update_job_status no_fmt (JStr ''job-1'') ''completed''
                   (JObj [(''success'', JBool True)]) None idle_world))))
     ''job_result:job-1''
   = Some (Encoded (JObj [(''jobId'', JStr ''job-1''), (''status'', JStr ''completed''),
                          (''result'', JObj [(''success'', JBool True)]),
                          (''completedAt'', JStr ''2024-01-16T10:00:05'')]), 86400)"
  by (simp add: loop_eval update_eval)

end
